theory Spec2Isabelle
  imports Main "HOL-Library.Word"
begin

unbundle bit_operations_syntax

section \<open>The data model of \<open>alsa_client.h\<close>\<close>

text \<open>
  The C++ type \<open>int\<close> is modelled by \<open>int\<close>; the only place of the module where the
  range of \<open>int\<close> matters is \<open>std::stoi\<close>, whose range check is written out below.
  A \<open>std::string\<close> is a list of bytes, \<open>string\<close>.
\<close>

definition NULL_ID :: int where
  "NULL_ID = - 1"

record PortID =
  client :: int
  port :: int

definition NULL_PORT_ID :: PortID where
  "NULL_PORT_ID = \<lparr>client = NULL_ID, port = NULL_ID\<rparr>"

type_synonym PortCaps = "32 word"

text \<open>The capability bits of \<open>alsa/seq.h\<close>.\<close>

definition SND_SEQ_PORT_CAP_READ :: PortCaps where
  "SND_SEQ_PORT_CAP_READ = 1"

definition SND_SEQ_PORT_CAP_WRITE :: PortCaps where
  "SND_SEQ_PORT_CAP_WRITE = 2"

definition SND_SEQ_PORT_CAP_SUBS_READ :: PortCaps where
  "SND_SEQ_PORT_CAP_SUBS_READ = 32"

definition SND_SEQ_PORT_CAP_SUBS_WRITE :: PortCaps where
  "SND_SEQ_PORT_CAP_SUBS_WRITE = 64"

record PortProfile =
  hasError :: bool
  errorMessage :: string
  caps :: PortCaps
  hasColon :: bool
  firstInt :: int
  firstName :: string
  secondInt :: int
  secondName :: string

text \<open>The default member initialisers of \<open>struct PortProfile\<close>.\<close>

definition PortProfile_default :: PortProfile where
  "PortProfile_default =
     \<lparr>hasError = False, errorMessage = [],
      caps = SND_SEQ_PORT_CAP_READ OR SND_SEQ_PORT_CAP_SUBS_READ,
      hasColon = False, firstInt = NULL_ID, firstName = [],
      secondInt = NULL_ID, secondName = []\<rparr>"

datatype State = closed | idle | running

datatype exn =
    BadStateException string
  | ServerException string
  | runtime_error string

section \<open>The port-designation parser\<close>

subsection \<open>Character classes\<close>

text \<open>
  The class \<open>\s\<close> of \<open>std::regex\<close> and the white space skipped by \<open>strtol\<close> are both
  \<open>isspace\<close> of the C locale: blank, and the control characters 9 to 13.
\<close>

definition isspace :: "char \<Rightarrow> bool" where
  "isspace c = (let n = (of_char c :: nat) in n = 32 \<or> (9 \<le> n \<and> n \<le> 13))"

definition isdigit :: "char \<Rightarrow> bool" where
  "isdigit c = (let n = (of_char c :: nat) in 48 \<le> n \<and> n \<le> 57)"

text \<open>The bracket expression \<open>[a-zA-Z0-9]\<close>.\<close>

definition alphanumeric :: "char \<Rightarrow> bool" where
  "alphanumeric c =
     (let n = (of_char c :: nat)
      in (97 \<le> n \<and> n \<le> 122) \<or> (65 \<le> n \<and> n \<le> 90) \<or> (48 \<le> n \<and> n \<le> 57))"

subsection \<open>\<open>std::stoi\<close> and \<open>identifierStrToInt\<close>\<close>

definition digit_value :: "char \<Rightarrow> int" where
  "digit_value c = int (of_char c) - 48"

definition digits_value :: "string \<Rightarrow> int" where
  "digits_value ds = foldl (\<lambda>acc c. acc * 10 + digit_value c) 0 ds"

datatype stoi_failure = invalid_argument | out_of_range

text \<open>
  \<open>std::stoi (str)\<close> with base 10: \<open>strtol\<close> skips leading white space, takes an
  optional sign and the longest run of digits, and ignores whatever follows;
  no digit at all is \<open>invalid_argument\<close>, a value outside of \<open>int\<close> is \<open>out_of_range\<close>.
\<close>

definition stoi :: "string \<Rightarrow> stoi_failure + int" where
  "stoi str =
     (let s1 = dropWhile isspace str;
          negative = (s1 \<noteq> [] \<and> hd s1 = CHR ''-'');
          s2 = (if s1 \<noteq> [] \<and> (hd s1 = CHR ''-'' \<or> hd s1 = CHR ''+'') then tl s1 else s1);
          ds = takeWhile isdigit s2;
          v = (if negative then - digits_value ds else digits_value ds)
      in if ds = [] then Inl invalid_argument
         else if v < - (2 ^ 31) \<or> 2 ^ 31 - 1 < v then Inl out_of_range
         else Inr v)"

definition identifierStrToInt :: "string \<Rightarrow> int" where
  "identifierStrToInt identifier =
     (case stoi identifier of Inr v \<Rightarrow> v | Inl _ \<Rightarrow> NULL_ID)"

subsection \<open>\<open>normalizedIdentifier\<close>\<close>

text \<open>
  The first \<open>regex_replace\<close> removes every white space character, the second one puts
  an underscore in the place of every remaining character that is not a letter or a
  digit of ASCII. Both work on bytes. The two patterns are constants and well-formed,
  so that the \<open>catch\<close> branch of the function is not entered.
\<close>

definition normalizedIdentifier :: "string \<Rightarrow> string" where
  "normalizedIdentifier identifier =
     (let noBlanks = filter (\<lambda>c. \<not> isspace c) identifier;
          noSpecial = map (\<lambda>c. if alphanumeric c then c else CHR ''_'') noBlanks
      in noSpecial)"

subsection \<open>The two regular expressions of \<open>toProfile\<close>\<close>

text \<open>
  \<open>regex_match\<close> against \<open>^([^:]+):([^:]+)$\<close>: the whole designation is a non-empty
  run without colon, one colon, and a non-empty run without colon. The result holds
  the two sub-matches; \<open>None\<close> is the empty \<open>matchResults\<close>.
\<close>

definition twoNamesSeparatedByColon :: "string \<Rightarrow> (string \<times> string) option" where
  "twoNamesSeparatedByColon designation =
     (let m1 = takeWhile (\<lambda>c. c \<noteq> CHR '':'') designation;
          rest = dropWhile (\<lambda>c. c \<noteq> CHR '':'') designation
      in case rest of
           [] \<Rightarrow> None
         | _ # m2 \<Rightarrow>
             if m1 \<noteq> [] \<and> m2 \<noteq> [] \<and> CHR '':'' \<notin> set m2 then Some (m1, m2) else None)"

text \<open>\<open>regex_match\<close> against \<open>^[^:]+$\<close>; the result is sub-match 0, the whole string.\<close>

definition oneName :: "string \<Rightarrow> string option" where
  "oneName designation =
     (if designation \<noteq> [] \<and> CHR '':'' \<notin> set designation then Some designation else None)"

subsection \<open>\<open>toProfile\<close>\<close>

definition toProfile :: "PortCaps \<Rightarrow> string \<Rightarrow> PortProfile" where
  "toProfile cps designation =
     (let result = PortProfile_default\<lparr>caps := cps\<rparr>
      in if designation = [] then
           result\<lparr>hasError := True, errorMessage := ''Port-Identifier seems to be empty.''\<rparr>
         else
           (case twoNamesSeparatedByColon designation of
              Some (m1, m2) \<Rightarrow>
                (let r1 = result\<lparr>hasColon := True\<rparr>;
                     r2 = r1\<lparr>firstName := normalizedIdentifier m1\<rparr>;
                     r3 = r2\<lparr>secondName := normalizedIdentifier m2\<rparr>;
                     r4 = r3\<lparr>firstInt := identifierStrToInt (firstName r3)\<rparr>;
                     r5 = r4\<lparr>secondInt := identifierStrToInt (secondName r4)\<rparr>
                 in r5)
            | None \<Rightarrow>
                (case oneName designation of
                   Some m0 \<Rightarrow>
                     (let r1 = result\<lparr>hasColon := False\<rparr>;
                          r2 = r1\<lparr>firstName := normalizedIdentifier m0\<rparr>;
                          r3 = r2\<lparr>secondName := []\<rparr>;
                          r4 = r3\<lparr>firstInt := identifierStrToInt (firstName r3)\<rparr>;
                          r5 = r4\<lparr>secondInt := NULL_ID\<rparr>
                      in r5)
                 | None \<Rightarrow>
                     result\<lparr>hasError := True,
                            errorMessage := ''Invalid Port-Identifier: '' @ designation\<rparr>)))"

section \<open>The port matcher\<close>

text \<open>
  Modelled from the spec: \<open>fulfills\<close> is declared in \<open>alsa_util.h\<close>, which is not part of
  the sources at hand. A candidate satisfies the requested capability mask when it has
  every requested capability bit.
\<close>

definition fulfills :: "PortCaps \<Rightarrow> PortCaps \<Rightarrow> bool" where
  "fulfills actualCaps requestedCaps = (actualCaps AND requestedCaps = requestedCaps)"

definition match :: "PortCaps \<Rightarrow> PortID \<Rightarrow> string \<Rightarrow> string \<Rightarrow> PortProfile \<Rightarrow> bool" where
  "match cps portId clientName portName requested =
     (if \<not> fulfills cps (caps requested) then False
      else
        (let normalClientName = normalizedIdentifier clientName;
             normalPortName = normalizedIdentifier portName
         in if hasColon requested then
              (if firstInt requested = client portId
                  \<and> secondInt requested = port portId then True
               else if firstInt requested = client portId
                  \<and> normalizedIdentifier (secondName requested) = normalPortName then True
               else if normalizedIdentifier (firstName requested) = normalClientName
                  \<and> normalizedIdentifier (secondName requested) = normalPortName then True
               else if normalizedIdentifier (firstName requested) = normalClientName
                  \<and> secondInt requested = port portId then True
               else False)
            else
              (if normalizedIdentifier (firstName requested) = normalPortName then True
               else False)))"

section \<open>The sequencer service\<close>

text \<open>
  The ALSA sequencer is outside of the module. It is modelled by the answers it gives:
  the clients and their ports in the order in which \<open>snd_seq_query_next_client\<close> and
  \<open>snd_seq_query_next_port\<close> deliver them, the subscriptions (destination, sender) in
  the order of \<open>snd_seq_query_port_subscribers\<close>, and the return codes of the calls
  that may fail. Every function of the module that talks to the sequencer returns, next
  to its result, the list of the requests and log lines it has issued.
\<close>

record port_info =
  port_nr :: int
  port_name :: string
  capability :: PortCaps

record client_info =
  client_nr :: int
  client_name :: string
  ports :: "port_info list"

record sequencer =
  seq_clients :: "client_info list"
  seq_subscriptions :: "(PortID \<times> PortID) list"
  rc_open :: int
  rc_set_client_name :: int
  rc_midi_event_new :: int
  rc_client_id :: int
  rc_create_simple_port :: int
  rc_connect_from :: "int \<Rightarrow> int \<Rightarrow> int \<Rightarrow> int"

datatype effect =
    Query_next_client
  | Query_next_port int
  | Query_port_subscribers PortID nat
  | Connect_from int int int
  | Seq_open
  | Set_client_name string
  | Midi_event_new
  | Client_id
  | Create_simple_port string
  | Midi_event_free
  | Seq_close
  | SPDLOG_INFO string

text \<open>
  Modelled from the spec: the macro \<open>ALSA_ERROR\<close> is declared in \<open>alsa_util.h\<close>, which
  is not part of the sources at hand. The sequencer service has rejected or failed an
  operation when its return code is negative.
\<close>

definition ALSA_ERROR :: "int \<Rightarrow> bool" where
  "ALSA_ERROR err = (err < 0)"

text \<open>
  Modelled from the spec: the constant \<open>SENDER_PORT\<close> is declared in \<open>alsa_util.h\<close>,
  which is not part of the sources at hand. The counterpart of a receiver port is a
  port that can be read and subscribed to for reading.
\<close>

definition SENDER_PORT :: PortCaps where
  "SENDER_PORT = SND_SEQ_PORT_CAP_READ OR SND_SEQ_PORT_CAP_SUBS_READ"

section \<open>The search through the ports of the sequencer\<close>

text \<open>
  A \<open>MatchCallback\<close> is a \<open>std::function\<close>: it may carry a state of its own, as the
  counting closure of the unit test does. The state is threaded through the calls.
\<close>

type_synonym 'c MatchCallback =
  "PortCaps \<Rightarrow> PortID \<Rightarrow> string \<Rightarrow> string \<Rightarrow> PortProfile \<Rightarrow> 'c \<Rightarrow> bool \<times> 'c"

text \<open>
  The inner loop of \<open>findPort\<close>, over the ports which the sequencer still has to deliver
  for the client: \<open>Some\<close> is the \<open>return portId\<close> from within the loop.
\<close>

fun findPort_ports ::
  "PortProfile \<Rightarrow> 'c MatchCallback \<Rightarrow> int \<Rightarrow> string \<Rightarrow> port_info list \<Rightarrow> 'c
     \<Rightarrow> PortID option \<times> 'c \<times> effect list" where
  "findPort_ports requested matchfn clientNr clientName [] c =
     (None, c, [Query_next_port clientNr])"
| "findPort_ports requested matchfn clientNr clientName (portInfo # remaining) c =
     (let portNr = port_nr portInfo;
          portName = port_name portInfo;
          cps = capability portInfo;
          portId = \<lparr>client = clientNr, port = portNr\<rparr>;
          (matched, c1) = matchfn cps portId clientName portName requested c
      in if matched then (Some portId, c1, [Query_next_port clientNr])
         else
           (let (found, c2, fx) = findPort_ports requested matchfn clientNr clientName remaining c1
            in (found, c2, Query_next_port clientNr # fx)))"

text \<open>The outer loop, over the clients which the sequencer still has to deliver.\<close>

fun findPort_clients ::
  "PortProfile \<Rightarrow> 'c MatchCallback \<Rightarrow> client_info list \<Rightarrow> 'c
     \<Rightarrow> PortID option \<times> 'c \<times> effect list" where
  "findPort_clients requested matchfn [] c = (None, c, [Query_next_client])"
| "findPort_clients requested matchfn (clientInfo # remaining) c =
     (let clientNr = client_nr clientInfo;
          clientName = client_name clientInfo;
          (found, c1, fx) =
             findPort_ports requested matchfn clientNr clientName (ports clientInfo) c
      in case found of
           Some portId \<Rightarrow> (Some portId, c1, Query_next_client # fx)
         | None \<Rightarrow>
             (let (found2, c2, fx2) = findPort_clients requested matchfn remaining c1
              in (found2, c2, Query_next_client # fx @ fx2)))"

definition findPort ::
  "PortProfile \<Rightarrow> 'c MatchCallback \<Rightarrow> 'c \<Rightarrow> sequencer \<Rightarrow> PortID \<times> 'c \<times> effect list" where
  "findPort requested matchfn c sq =
     (if hasError requested then (NULL_PORT_ID, c, [])
      else
        (let (found, c1, fx) = findPort_clients requested matchfn (seq_clients sq) c
         in case found of
              Some portId \<Rightarrow> (portId, c1, fx)
            | None \<Rightarrow> (NULL_PORT_ID, c1, fx)))"

text \<open>The function \<open>match\<close>, which has no state, as a \<open>MatchCallback\<close>.\<close>

definition match_callback :: "unit MatchCallback" where
  "match_callback cps portId clientName portName requested c =
     (match cps portId clientName portName requested, c)"

section \<open>The session: the global variables of \<open>alsa_client.cpp\<close>\<close>

text \<open>
  A handler is a \<open>std::function\<close>; the module itself only ever installs
  \<open>defaultConnectionsHandler\<close>, any other handler is known by a tag.
  A pointer is modelled by whether it is set: \<open>False\<close> is \<open>nullptr\<close>.
\<close>

datatype OnMonitorConnectionsHandler = DefaultConnectionsHandler | UserHandler nat

text \<open>
  A thread that runs \<open>monitorLoop\<close> is at one of the points between its accesses to
  the shared atomic flag \<open>g_monitoringActive\<close>: before the test of the loop
  condition, before the call of the handler (one tick of the monitor), in the sleep,
  or it has left the function, by return or by an exception. The thread records the
  ticks that it has executed. The threads are detached: the module holds no handle to them. They are
  kept with the global variables, in the order of their creation.
\<close>

datatype monitor_pc = at_while_test | at_handler_call | at_sleep | returned | left_by_exception

record monitor_thread =
  pc :: monitor_pc
  ticks :: "(OnMonitorConnectionsHandler \<times> string) list"

definition monitorLoop_start :: monitor_thread where
  "monitorLoop_start = \<lparr>pc = at_while_test, ticks = []\<rparr>"

record globals =
  g_portId :: int
  g_sequencerHandle :: bool
  g_midiEventParserHandle :: bool
  g_clientId :: int
  g_stateFlag :: State
  g_connectTo :: string
  g_onMonitorConnectionsHandler :: "OnMonitorConnectionsHandler option"
  g_monitoringActive :: bool
  receiverQueue_started :: bool
  monitor_threads :: "monitor_thread list"

text \<open>The static initialisers; no thread has been started.\<close>

definition initial_globals :: globals where
  "initial_globals =
     \<lparr>g_portId = NULL_ID, g_sequencerHandle = False, g_midiEventParserHandle = False,
      g_clientId = NULL_ID, g_stateFlag = closed, g_connectTo = [],
      g_onMonitorConnectionsHandler = None, g_monitoringActive = False,
      receiverQueue_started = False, monitor_threads = []\<rparr>"

definition stateAsString :: "State \<Rightarrow> string" where
  "stateAsString st =
     (case st of closed \<Rightarrow> ''closed'' | idle \<Rightarrow> ''idle'' | running \<Rightarrow> ''running'')"

subsection \<open>Connecting to the designated port\<close>

definition tryToConnect :: "string \<Rightarrow> globals \<Rightarrow> sequencer \<Rightarrow> exn option \<times> effect list" where
  "tryToConnect designation g sq =
     (if designation = [] then (None, [])
      else
        (let searchProfile = toProfile SENDER_PORT designation;
             (target, _, fx) = findPort searchProfile match_callback () sq;
             lg = (if target = NULL_PORT_ID
                   then [SPDLOG_INFO (''no such port named '' @ designation)] else []);
             err = rc_connect_from sq (g_portId g) (client target) (port target);
             fx2 = fx @ lg @ [Connect_from (g_portId g) (client target) (port target)]
         in if ALSA_ERROR err
            then (Some (runtime_error (''ALSA cannot connect to port ['' @ designation @ '']'')),
                  fx2)
            else (None, fx2)))"

subsection \<open>The connections of the receiver port\<close>

definition subscribers_of :: "sequencer \<Rightarrow> PortID \<Rightarrow> PortID list" where
  "subscribers_of sq root = map snd (filter (\<lambda>(dest, sender). dest = root) (seq_subscriptions sq))"

text \<open>
  \<open>snd_seq_query_port_subscribers\<close> for the subscriptions of type
  \<open>SND_SEQ_QUERY_SUBS_WRITE\<close> of the port \<open>root\<close>: \<open>None\<close> is a negative return code.
\<close>

definition snd_seq_query_port_subscribers :: "sequencer \<Rightarrow> PortID \<Rightarrow> nat \<Rightarrow> PortID option" where
  "snd_seq_query_port_subscribers sq root index =
     (if index < length (subscribers_of sq root) then Some (subscribers_of sq root ! index)
      else None)"

function subscribers_loop ::
  "sequencer \<Rightarrow> PortID \<Rightarrow> nat \<Rightarrow> PortID list \<Rightarrow> effect list \<Rightarrow> PortID list \<times> effect list" where
  "subscribers_loop sq thisAddr index result fx =
     (case snd_seq_query_port_subscribers sq thisAddr index of
        None \<Rightarrow> (result, fx @ [Query_port_subscribers thisAddr index])
      | Some subscriberAddr \<Rightarrow>
          subscribers_loop sq thisAddr (index + 1) (result @ [subscriberAddr])
            (fx @ [Query_port_subscribers thisAddr index]))"
  by pat_completeness auto
termination
  by (relation "measure (\<lambda>(sq, thisAddr, index, result, fx).
                  length (subscribers_of sq thisAddr) - index)")
     (auto simp: snd_seq_query_port_subscribers_def split: if_splits)

definition receiverPortGetConnectionsInternal ::
  "globals \<Rightarrow> sequencer \<Rightarrow> PortID list \<times> effect list" where
  "receiverPortGetConnectionsInternal g sq =
     (let thisAddr = \<lparr>client = g_clientId g, port = g_portId g\<rparr>
      in subscribers_loop sq thisAddr 0 [] [])"

definition receiverPortGetConnections :: "globals \<Rightarrow> sequencer \<Rightarrow> PortID list \<times> effect list" where
  "receiverPortGetConnections g sq =
     (let emptyList = []
      in if g_stateFlag g = closed then (emptyList, [])
         else if g_portId g = NULL_ID then (emptyList, [])
         else receiverPortGetConnectionsInternal g sq)"

subsection \<open>The monitor handler\<close>

definition onMonitorConnections ::
  "OnMonitorConnectionsHandler option \<Rightarrow> globals \<Rightarrow> exn option \<times> globals" where
  "onMonitorConnections handler g =
     (if g_stateFlag g = running
      then (Some (BadStateException
                    (''Cannot register an OnMonitorConnectionsHandler. Wrong state ''
                       @ stateAsString (g_stateFlag g))), g)
      else (None, g\<lparr>g_onMonitorConnectionsHandler := handler\<rparr>))"

definition defaultConnectionsHandler ::
  "string \<Rightarrow> globals \<Rightarrow> sequencer \<Rightarrow> exn option \<times> effect list" where
  "defaultConnectionsHandler connectTo g sq =
     (if connectTo = [] then (None, [])
      else if g_portId g = NULL_ID then (None, [])
      else
        (let (connected, fx) = receiverPortGetConnectionsInternal g sq
         in if connected \<noteq> [] then (None, fx)
            else
              (let (thrown, fx2) = tryToConnect connectTo g sq
               in (thrown, fx @ fx2))))"

subsection \<open>The life cycle\<close>

definition stopConnectionMonitoring :: "globals \<Rightarrow> globals" where
  "stopConnectionMonitoring g = g\<lparr>g_monitoringActive := False\<rparr>"

text \<open>
  Modelled from the spec: \<open>receiverQueue::start\<close> and \<open>receiverQueue::stop\<close> are declared
  in \<open>alsa_receiver_queue.h\<close>, which is not part of the sources at hand. They are the
  life cycle of the event source, which is either started or not.
\<close>

definition receiverQueue_start :: "globals \<Rightarrow> globals" where
  "receiverQueue_start g = g\<lparr>receiverQueue_started := True\<rparr>"

definition receiverQueue_stop :: "globals \<Rightarrow> globals" where
  "receiverQueue_stop g = g\<lparr>receiverQueue_started := False\<rparr>"

definition stopInternal :: "globals \<Rightarrow> globals" where
  "stopInternal g = receiverQueue_stop (stopConnectionMonitoring g)"

text \<open>
  \<open>activateConnectionMonitoring\<close> sets the flag and starts one more detached thread
  that runs \<open>monitorLoop\<close>, whether or not threads of earlier activations are still
  in their loops.
\<close>

definition activateConnectionMonitoring :: "globals \<Rightarrow> globals" where
  "activateConnectionMonitoring g =
     (let g1 = g\<lparr>g_monitoringActive := True\<rparr>
      in g1\<lparr>monitor_threads := monitor_threads g1 @ [monitorLoop_start]\<rparr>)"

definition activateInternal :: "globals \<Rightarrow> globals" where
  "activateInternal g = receiverQueue_start (activateConnectionMonitoring g)"

definition open_alsaClient ::
  "string \<Rightarrow> sequencer \<Rightarrow> globals \<Rightarrow> exn option \<times> globals \<times> effect list" where
  "open_alsaClient clientName sq g =
     (if g_stateFlag g \<noteq> closed
      then (Some (BadStateException
                    (''Cannot open ALSA client. Wrong state '' @ stateAsString (g_stateFlag g))),
            g, [])
      else if ALSA_ERROR (rc_open sq)
      then (Some (runtime_error ''ALSA cannot open sequencer''), g, [Seq_open])
      else if ALSA_ERROR (rc_set_client_name sq)
      then (Some (runtime_error ''ALSA cannot set client name.''), g,
            [Seq_open, Set_client_name clientName])
      else if ALSA_ERROR (rc_midi_event_new sq)
      then (Some (runtime_error ''ALSA cannot create MIDI parser.''), g,
            [Seq_open, Set_client_name clientName, Midi_event_new])
      else
        (let g1 = g\<lparr>g_portId := NULL_ID\<rparr>;
             g2 = g1\<lparr>g_sequencerHandle := True\<rparr>;
             g3 = g2\<lparr>g_midiEventParserHandle := True\<rparr>;
             g4 = g3\<lparr>g_clientId := rc_client_id sq\<rparr>;
             fx = [Seq_open, Set_client_name clientName, Midi_event_new, Client_id]
         in if ALSA_ERROR (g_clientId g4)
            then (Some (runtime_error ''ALSA cannot create client''), g4, fx)
            else (None, g4\<lparr>g_stateFlag := idle\<rparr>, fx)))"

definition newReceiverPort ::
  "string \<Rightarrow> string \<Rightarrow> sequencer \<Rightarrow> globals \<Rightarrow> exn option \<times> globals \<times> effect list" where
  "newReceiverPort portName connectTo sq g =
     (if g_stateFlag g \<noteq> idle
      then (Some (BadStateException
                    (''Cannot create input port. Wrong state '' @ stateAsString (g_stateFlag g))),
            g, [])
      else if g_portId g \<noteq> NULL_ID
      then (Some (ServerException ''Cannot create more that one port.''), g, [])
      else
        (let g1 = g\<lparr>g_portId := rc_create_simple_port sq\<rparr>
         in if ALSA_ERROR (g_portId g1)
            then (Some (runtime_error ''ALSA cannot create port''), g1\<lparr>g_portId := NULL_ID\<rparr>,
                  [Create_simple_port portName])
            else
              (let g2 = g1\<lparr>g_connectTo := connectTo\<rparr>;
                   (thrown, g3) = onMonitorConnections (Some DefaultConnectionsHandler) g2
               in (thrown, g3, [Create_simple_port portName]))))"

definition close_alsaClient :: "globals \<Rightarrow> globals \<times> effect list" where
  "close_alsaClient g =
     (if g_stateFlag g = closed then (g, [])
      else
        (let g1 = stopInternal g;
             g2 = g1\<lparr>g_portId := NULL_ID\<rparr>;
             g3 = g2\<lparr>g_sequencerHandle := False\<rparr>;
             g4 = g3\<lparr>g_midiEventParserHandle := False\<rparr>;
             g5 = g4\<lparr>g_clientId := NULL_ID\<rparr>;
             g6 = g5\<lparr>g_stateFlag := closed\<rparr>
         in (g6, [Midi_event_free, Seq_close])))"

definition state :: "globals \<Rightarrow> State" where
  "state g = g_stateFlag g"

definition activate :: "globals \<Rightarrow> exn option \<times> globals" where
  "activate g =
     (if g_stateFlag g \<noteq> idle
      then (Some (BadStateException
                    (''Cannot create activate. Wrong state '' @ stateAsString (g_stateFlag g))),
            g)
      else
        (let g1 = activateInternal g
         in (None, g1\<lparr>g_stateFlag := running\<rparr>)))"

definition stop :: "globals \<Rightarrow> globals" where
  "stop g =
     (if g_stateFlag g \<noteq> running then g
      else
        (let g1 = stopInternal g
         in g1\<lparr>g_stateFlag := idle\<rparr>))"

section \<open>Retrieving the events\<close>

text \<open>
  A time point of the steady clock is its count of ticks. A MIDI event is a vector of
  bytes. The raw sequencer event \<open>snd_seq_event_t\<close> is left open (the type \<open>'ev\<close>);
  \<open>snd_midi_event_decode\<close> belongs to the sequencer library and is a parameter: it
  gives the return code and the bytes written to the buffer.
\<close>

type_synonym TimePoint = int

type_synonym midi_Event = "8 word list"

type_synonym 'ev snd_midi_event_decode = "'ev \<Rightarrow> int \<times> 8 word list"

definition parseAlsaEvent :: "'ev snd_midi_event_decode \<Rightarrow> 'ev \<Rightarrow> midi_Event" where
  "parseAlsaEvent decode alsaEvent =
     (let emptyEvent = [];
          (evLength, pMidiData) = decode alsaEvent
      in if evLength \<le> 0 then emptyEvent
         else take (nat evLength) pMidiData)"

text \<open>A \<open>RetrieveCallback\<close> returns a status; it may carry a state of its own.\<close>

type_synonym 'c RetrieveCallback = "midi_Event \<Rightarrow> TimePoint \<Rightarrow> 'c \<Rightarrow> int \<times> 'c"

text \<open>
  The closure \<open>processClosure\<close> of \<open>retrieve\<close>. It captures \<open>err\<close> by reference:
  the pair of \<open>err\<close> and the state of the callback is passed through.
\<close>

definition processClosure ::
  "'ev snd_midi_event_decode \<Rightarrow> 'c RetrieveCallback \<Rightarrow> 'ev \<Rightarrow> TimePoint \<Rightarrow> int \<times> 'c
     \<Rightarrow> int \<times> 'c" where
  "processClosure decode forEachClosure event timeStamp ec =
     (let (err, c) = ec;
          midiEvent = parseAlsaEvent decode event
      in if midiEvent \<noteq> [] \<and> err = 0 then forEachClosure midiEvent timeStamp c
         else (err, c))"

text \<open>
  Modelled from the spec: \<open>receiverQueue::process\<close> is declared in
  \<open>alsa_receiver_queue.h\<close>, which is not part of the sources at hand. The queue holds
  the raw events with their capture time stamps, in capture order. Processing drains
  all events that were captured at or before the deadline, in queue order, applies
  the closure to each of them, and leaves the events captured after the deadline
  in the queue.
\<close>

definition receiverQueue_process ::
  "TimePoint \<Rightarrow> ('ev \<Rightarrow> TimePoint \<Rightarrow> 'a \<Rightarrow> 'a) \<Rightarrow> 'a \<Rightarrow> ('ev \<times> TimePoint) list
     \<Rightarrow> 'a \<times> ('ev \<times> TimePoint) list" where
  "receiverQueue_process deadline closure a queue =
     (foldl (\<lambda>a (event, timeStamp). closure event timeStamp a) a
        (filter (\<lambda>(event, timeStamp). timeStamp \<le> deadline) queue),
      filter (\<lambda>(event, timeStamp). \<not> timeStamp \<le> deadline) queue)"

definition retrieve ::
  "'ev snd_midi_event_decode \<Rightarrow> TimePoint \<Rightarrow> 'c RetrieveCallback \<Rightarrow> 'c \<Rightarrow> globals
     \<Rightarrow> ('ev \<times> TimePoint) list \<Rightarrow> int \<times> 'c \<times> ('ev \<times> TimePoint) list" where
  "retrieve decode deadline forEachClosure c g queue =
     (if g_stateFlag g \<noteq> running then (- 1, c, queue)
      else
        (let err = 0;
             ((err1, c1), queue1) =
                receiverQueue_process deadline (processClosure decode forEachClosure) (err, c) queue
         in (err1, c1, queue1)))"

section \<open>The monitor threads and the process\<close>

text \<open>
  What a handler other than the default one does is outside of the module. It is a
  parameter: for the tag of the handler and its argument, the exception that the
  handler throws, if any.
\<close>

type_synonym user_handlers = "nat \<Rightarrow> string \<Rightarrow> exn option"

definition invoke_handler ::
  "user_handlers \<Rightarrow> sequencer \<Rightarrow> globals \<Rightarrow> OnMonitorConnectionsHandler \<Rightarrow> string
     \<Rightarrow> exn option" where
  "invoke_handler user sq g handler connectTo =
     (case handler of
        DefaultConnectionsHandler \<Rightarrow> fst (defaultConnectionsHandler connectTo g sq)
      | UserHandler tag \<Rightarrow> user tag connectTo)"

text \<open>
  One step of a thread in \<open>monitorLoop\<close>, on the global variables and the sequencer
  as they are at that moment. The first component of the result is the exception
  that leaves \<open>monitorLoop\<close>: the function has no \<open>try\<close> block, so that an exception of
  the handler is not caught.
\<close>

definition monitorLoop_step ::
  "user_handlers \<Rightarrow> sequencer \<Rightarrow> globals \<Rightarrow> monitor_thread \<Rightarrow> exn option \<times> monitor_thread" where
  "monitorLoop_step user sq g th =
     (case pc th of
        at_while_test \<Rightarrow>
          (None, if g_monitoringActive g then th\<lparr>pc := at_handler_call\<rparr>
                 else th\<lparr>pc := returned\<rparr>)
      | at_handler_call \<Rightarrow>
          (case g_onMonitorConnectionsHandler g of
             Some handler \<Rightarrow>
               (let th1 = th\<lparr>ticks := ticks th @ [(handler, g_connectTo g)]\<rparr>;
                    thrown = invoke_handler user sq g handler (g_connectTo g)
                in (thrown, if thrown = None then th1\<lparr>pc := at_sleep\<rparr>
                            else th1\<lparr>pc := left_by_exception\<rparr>))
           | None \<Rightarrow> (None, th\<lparr>pc := at_sleep\<rparr>))
      | at_sleep \<Rightarrow> (None, th\<lparr>pc := at_while_test\<rparr>)
      | returned \<Rightarrow> (None, th)
      | left_by_exception \<Rightarrow> (None, th))"

text \<open>
  The process: the global variables with the threads, and the exception that has
  terminated the process, if any. An exception that leaves the function of a thread
  terminates the process; nothing is executed in a terminated process.
\<close>

record process =
  glob :: globals
  terminated :: "exn option"

text \<open>
  The events of the process are the steps of the monitor threads, each thread being
  known by its position, and the calls of the foreground thread that write the global
  variables. They interleave in any order. A step of a thread sees the sequencer as
  it is at that moment. An exception of a call of the foreground thread goes to the
  caller, who is taken to handle it.
\<close>

datatype event =
    Monitor nat sequencer
  | Open string sequencer
  | NewReceiverPort string string sequencer
  | OnMonitorConnections "OnMonitorConnectionsHandler option"
  | Activate
  | Stop
  | Close

definition process_step :: "user_handlers \<Rightarrow> event \<Rightarrow> process \<Rightarrow> process" where
  "process_step user e p =
     (if terminated p \<noteq> None then p
      else
        (case e of
           Monitor i sq \<Rightarrow>
             (if i < length (monitor_threads (glob p)) then
                (let (thrown, th) =
                       monitorLoop_step user sq (glob p) (monitor_threads (glob p) ! i)
                 in p\<lparr>glob := (glob p)\<lparr>monitor_threads := (monitor_threads (glob p))[i := th]\<rparr>,
                      terminated := thrown\<rparr>)
              else p)
         | Open clientName sq \<Rightarrow> p\<lparr>glob := fst (snd (open_alsaClient clientName sq (glob p)))\<rparr>
         | NewReceiverPort portName connectTo sq \<Rightarrow>
             p\<lparr>glob := fst (snd (newReceiverPort portName connectTo sq (glob p)))\<rparr>
         | OnMonitorConnections handler \<Rightarrow> p\<lparr>glob := snd (onMonitorConnections handler (glob p))\<rparr>
         | Activate \<Rightarrow> p\<lparr>glob := snd (activate (glob p))\<rparr>
         | Stop \<Rightarrow> p\<lparr>glob := stop (glob p)\<rparr>
         | Close \<Rightarrow> p\<lparr>glob := fst (close_alsaClient (glob p))\<rparr>))"

fun run :: "user_handlers \<Rightarrow> event list \<Rightarrow> process \<Rightarrow> process" where
  "run user [] p = p"
| "run user (e # evs) p = run user evs (process_step user e p)"

section \<open>The specification in terms of the model\<close>

subsection \<open>Invalid designations\<close>

definition colons :: "string \<Rightarrow> nat" where
  "colons designation = length (filter (\<lambda>c. c = CHR '':'') designation)"

text \<open>
  The designations which the specification calls invalid: the empty string, more than
  one colon, or one colon with an empty token before or after it.
\<close>

definition InvalidDesignation :: "string \<Rightarrow> bool" where
  "InvalidDesignation designation =
     (designation = []
      \<or> 1 < colons designation
      \<or> (colons designation = 1
           \<and> (takeWhile (\<lambda>c. c \<noteq> CHR '':'') designation = []
                \<or> tl (dropWhile (\<lambda>c. c \<noteq> CHR '':'') designation) = [])))"

subsection \<open>Up to the first\<close>

text \<open>
  The elements of a list up to and including the first one that satisfies a
  predicate; all elements when none does.
\<close>

definition up_to_first :: "('a \<Rightarrow> bool) \<Rightarrow> 'a list \<Rightarrow> 'a list" where
  "up_to_first p xs = takeWhile (\<lambda>x. \<not> p x) xs @ take 1 (dropWhile (\<lambda>x. \<not> p x) xs)"

subsection \<open>The first match in enumeration order\<close>

text \<open>
  All ports known to the sequencer, client by client, in the order of enumeration,
  each with what the match function is given: capabilities, identity, name of the
  client and name of the port.
\<close>

definition candidates :: "sequencer \<Rightarrow> (PortCaps \<times> PortID \<times> string \<times> string) list" where
  "candidates sq =
     concat (map (\<lambda>ci. map (\<lambda>p. (capability p, \<lparr>client = client_nr ci, port = port_nr p\<rparr>,
                                   client_name ci, port_name p)) (ports ci))
                 (seq_clients sq))"

text \<open>
  The search as the specification words it: the match function is invoked on one
  candidate after the other, once each, and the first candidate on which it answers
  true is the result; none is found when the candidates are exhausted.
\<close>

fun first_match ::
  "PortProfile \<Rightarrow> 'c MatchCallback \<Rightarrow> (PortCaps \<times> PortID \<times> string \<times> string) list \<Rightarrow> 'c
     \<Rightarrow> PortID option \<times> 'c" where
  "first_match requested matchfn [] c = (None, c)"
| "first_match requested matchfn ((cps, portId, clientName, portName) # remaining) c =
     (let (matched, c1) = matchfn cps portId clientName portName requested c
      in if matched then (Some portId, c1) else first_match requested matchfn remaining c1)"

text \<open>The enumeration requests of a search that exhausts all clients and ports.\<close>

definition full_enumeration :: "sequencer \<Rightarrow> effect list" where
  "full_enumeration sq =
     concat (map (\<lambda>ci. Query_next_client
                         # replicate (Suc (length (ports ci))) (Query_next_port (client_nr ci)))
                 (seq_clients sq))
       @ [Query_next_client]"

text \<open>The closure of the unit test \<open>findPort\<close>: it counts its calls and never matches.\<close>

definition counting_callback :: "nat MatchCallback" where
  "counting_callback cps portId clientName portName search portCount = (False, Suc portCount)"

text \<open>
  A match function without state of its own, behind a closure that records the ports
  it is asked about.
\<close>

definition recording ::
  "(PortCaps \<Rightarrow> PortID \<Rightarrow> string \<Rightarrow> string \<Rightarrow> PortProfile \<Rightarrow> bool)
     \<Rightarrow> (PortID list) MatchCallback" where
  "recording matchfn cps portId clientName portName requested asked =
     (matchfn cps portId clientName portName requested, asked @ [portId])"

subsection \<open>Delivery up to the first failure\<close>

text \<open>
  The events that are captured at or before the deadline and that decode to a
  non-empty MIDI event, in queue order, each with its time stamp.
\<close>

definition deliverable ::
  "'ev snd_midi_event_decode \<Rightarrow> TimePoint \<Rightarrow> ('ev \<times> TimePoint) list
     \<Rightarrow> (midi_Event \<times> TimePoint) list" where
  "deliverable decode deadline queue =
     filter (\<lambda>(midiEvent, timeStamp). midiEvent \<noteq> [])
       (map (\<lambda>(event, timeStamp). (parseAlsaEvent decode event, timeStamp))
          (filter (\<lambda>(event, timeStamp). timeStamp \<le> deadline) queue))"

text \<open>
  Delivery as the specification words it: the callback is invoked on one event after
  the other; the first status that is not zero stops the delivery and is the result;
  the result is zero when every invocation has returned zero.
\<close>

fun deliver_until_failure ::
  "'c RetrieveCallback \<Rightarrow> (midi_Event \<times> TimePoint) list \<Rightarrow> 'c \<Rightarrow> int \<times> 'c" where
  "deliver_until_failure forEachClosure [] c = (0, c)"
| "deliver_until_failure forEachClosure ((midiEvent, timeStamp) # remaining) c =
     (let (status, c1) = forEachClosure midiEvent timeStamp c
      in if status \<noteq> 0 then (status, c1)
         else deliver_until_failure forEachClosure remaining c1)"

text \<open>
  A callback whose status depends on the event only, behind a closure that records
  the events it is given.
\<close>

definition recording_callback ::
  "(midi_Event \<Rightarrow> TimePoint \<Rightarrow> int) \<Rightarrow> ((midi_Event \<times> TimePoint) list) RetrieveCallback" where
  "recording_callback status midiEvent timeStamp given =
     (status midiEvent timeStamp, given @ [(midiEvent, timeStamp)])"

subsection \<open>A concrete sequencer and a concrete session\<close>

text \<open>
  The sequencer of a machine without MIDI hardware: the client \<open>System\<close> with the ports
  \<open>Timer\<close> and \<open>Announce\<close>, and the client \<open>Midi Through\<close> with one port. Nothing is
  subscribed. A connect request succeeds for the ports that exist and is rejected
  with \<open>-EINVAL\<close> otherwise.
\<close>

definition example_sequencer :: sequencer where
  "example_sequencer =
     \<lparr>seq_clients =
        [\<lparr>client_nr = 0, client_name = ''System'',
          ports = [\<lparr>port_nr = 0, port_name = ''Timer'', capability = 33\<rparr>,
                   \<lparr>port_nr = 1, port_name = ''Announce'', capability = 33\<rparr>]\<rparr>,
         \<lparr>client_nr = 14, client_name = ''Midi Through'',
          ports = [\<lparr>port_nr = 0, port_name = ''Midi Through Port-0'', capability = 99\<rparr>]\<rparr>],
      seq_subscriptions = [],
      rc_open = 0, rc_set_client_name = 0, rc_midi_event_new = 0,
      rc_client_id = 128, rc_create_simple_port = 0,
      rc_connect_from =
        (\<lambda>myPort srcClient srcPort.
           if (srcClient, srcPort) \<in> {(0, 0), (0, 1), (14, 0)} then 0 else - 22)\<rparr>"

text \<open>The session after \<open>open\<close>, after \<open>newReceiverPort\<close>, and after \<open>activate\<close>.\<close>

definition example_idle :: "string \<Rightarrow> globals" where
  "example_idle connectTo =
     (let (_, g1, _) = open_alsaClient ''a2jmidi'' example_sequencer initial_globals;
          (_, g2, _) = newReceiverPort ''MIDI in'' connectTo example_sequencer g1
      in g2)"

definition example_running :: "string \<Rightarrow> globals" where
  "example_running connectTo = snd (activate (example_idle connectTo))"

text \<open>
  Raw events whose decoding is written on them, and a callback that fails with
  status 7 on the event \<open>[2]\<close>.
\<close>

definition example_decode :: "(int \<times> 8 word list) snd_midi_event_decode" where
  "example_decode raw = raw"

definition example_status :: "midi_Event \<Rightarrow> TimePoint \<Rightarrow> int" where
  "example_status midiEvent timeStamp = (if midiEvent = [2] then 7 else 0)"

subsection \<open>The threads after the flag has been cleared\<close>

text \<open>The number of steps which the thread at position \<open>i\<close> takes in a list of events.\<close>

definition steps_of :: "nat \<Rightarrow> event list \<Rightarrow> nat" where
  "steps_of i evs =
     length (filter (\<lambda>e. case e of Monitor j sq \<Rightarrow> j = i | _ \<Rightarrow> False) evs)"

text \<open>
  A thread that has passed the test of the loop condition has one tick pending,
  whatever becomes of the flag.
\<close>

definition pending_tick :: "monitor_thread \<Rightarrow> nat" where
  "pending_tick th = (if pc th = at_handler_call then 1 else 0)"

text \<open>The number of steps after which a thread has returned when the flag is false.\<close>

definition remaining_steps :: "monitor_thread \<Rightarrow> nat" where
  "remaining_steps th =
     (case pc th of
        at_handler_call \<Rightarrow> 3 | at_sleep \<Rightarrow> 2 | at_while_test \<Rightarrow> 1
      | returned \<Rightarrow> 0 | left_by_exception \<Rightarrow> 0)"

text \<open>
  No handler but the default one is in use. The process of the concrete session in
  the running state, with its one monitor thread. The same process after a run in
  which \<open>stop\<close> and a second \<open>activate\<close> fall into the sleep of the first thread: two
  threads have passed the test of the loop condition.
\<close>

definition no_user_handlers :: user_handlers where
  "no_user_handlers tag connectTo = None"

definition example_process :: "string \<Rightarrow> process" where
  "example_process connectTo = \<lparr>glob = example_running connectTo, terminated = None\<rparr>"

definition example_two_threads :: process where
  "example_two_threads =
     run no_user_handlers
       [Monitor 0 example_sequencer, Monitor 0 example_sequencer, Stop, Activate,
        Monitor 0 example_sequencer, Monitor 0 example_sequencer, Monitor 1 example_sequencer]
       (example_process ''14:0'')"

section \<open>Properties of the parser\<close>

lemma colons_zero_iff: "colons d = 0 \<longleftrightarrow> CHR '':'' \<notin> set d"
  by (induction d) (auto simp: colons_def)

lemma colons_after_first:
  "dropWhile (\<lambda>c. c \<noteq> CHR '':'') d = x # r \<Longrightarrow> colons d = Suc (colons r)"
proof (induction d)
  case Nil
  then show ?case by simp
next
  case (Cons a d)
  then show ?case by (cases "a = CHR '':''") (auto simp: colons_def)
qed

lemma colons_no_first: "dropWhile (\<lambda>c. c \<noteq> CHR '':'') d = [] \<Longrightarrow> colons d = 0"
  by (auto simp: colons_zero_iff)

lemma takeWhile_up_to_colon:
  "CHR '':'' \<notin> set a \<Longrightarrow> takeWhile (\<lambda>c. c \<noteq> CHR '':'') (a @ CHR '':'' # b) = a"
  by (induction a) auto

lemma dropWhile_up_to_colon:
  "CHR '':'' \<notin> set a \<Longrightarrow> dropWhile (\<lambda>c. c \<noteq> CHR '':'') (a @ CHR '':'' # b) = CHR '':'' # b"
  by (induction a) auto

text \<open>The first regular expression accepts exactly the strings of the form \<open>a:b\<close>.\<close>

lemma twoNamesSeparatedByColon_Some_iff:
  "twoNamesSeparatedByColon d = Some (a, b) \<longleftrightarrow>
     d = a @ CHR '':'' # b \<and> a \<noteq> [] \<and> b \<noteq> [] \<and> CHR '':'' \<notin> set a \<and> CHR '':'' \<notin> set b"
proof
  assume m: "twoNamesSeparatedByColon d = Some (a, b)"
  show "d = a @ CHR '':'' # b \<and> a \<noteq> [] \<and> b \<noteq> [] \<and> CHR '':'' \<notin> set a \<and> CHR '':'' \<notin> set b"
  proof (cases "dropWhile (\<lambda>c. c \<noteq> CHR '':'') d")
    case Nil
    with m show ?thesis
      unfolding twoNamesSeparatedByColon_def Let_def by simp
  next
    case (Cons x r)
    with m have a: "a = takeWhile (\<lambda>c. c \<noteq> CHR '':'') d" and b: "b = r"
      and ne: "a \<noteq> []" "r \<noteq> []" "CHR '':'' \<notin> set r"
      unfolding twoNamesSeparatedByColon_def Let_def by (simp_all split: if_splits)
    have "\<not> (hd (dropWhile (\<lambda>c. c \<noteq> CHR '':'') d) \<noteq> CHR '':'')"
      by (rule hd_dropWhile) (simp add: Cons del: dropWhile_eq_Nil_conv)
    then have x: "x = CHR '':''" by (simp add: Cons)
    have "d = takeWhile (\<lambda>c. c \<noteq> CHR '':'') d @ dropWhile (\<lambda>c. c \<noteq> CHR '':'') d"
      by simp
    then have "d = a @ CHR '':'' # b" by (simp only: a b x Cons)
    moreover have "CHR '':'' \<notin> set a"
      unfolding a by (auto dest: set_takeWhileD)
    ultimately show ?thesis using ne b by simp
  qed
next
  assume r: "d = a @ CHR '':'' # b \<and> a \<noteq> [] \<and> b \<noteq> [] \<and> CHR '':'' \<notin> set a \<and> CHR '':'' \<notin> set b"
  then have "takeWhile (\<lambda>c. c \<noteq> CHR '':'') d = a"
    by (simp add: takeWhile_up_to_colon)
  moreover have "dropWhile (\<lambda>c. c \<noteq> CHR '':'') d = CHR '':'' # b"
    using r by (simp add: dropWhile_up_to_colon)
  ultimately show "twoNamesSeparatedByColon d = Some (a, b)"
    using r by (simp add: twoNamesSeparatedByColon_def)
qed

lemma twoNamesSeparatedByColon_None_iff:
  "twoNamesSeparatedByColon d = None \<longleftrightarrow>
     colons d \<noteq> 1 \<or> takeWhile (\<lambda>c. c \<noteq> CHR '':'') d = []
       \<or> tl (dropWhile (\<lambda>c. c \<noteq> CHR '':'') d) = []"
proof (cases "dropWhile (\<lambda>c. c \<noteq> CHR '':'') d")
  case Nil
  have "colons d = 0" using Nil by (rule colons_no_first)
  moreover have "twoNamesSeparatedByColon d = None"
    unfolding twoNamesSeparatedByColon_def Let_def Nil by simp
  ultimately show ?thesis by simp
next
  case (Cons x r)
  have "colons d = Suc (colons r)" using Cons by (rule colons_after_first)
  moreover have "colons r = 0 \<longleftrightarrow> CHR '':'' \<notin> set r" by (rule colons_zero_iff)
  ultimately show ?thesis using Cons
    by (auto simp: twoNamesSeparatedByColon_def Let_def)
qed

lemma oneName_None_iff: "oneName d = None \<longleftrightarrow> d = [] \<or> colons d \<noteq> 0"
  by (auto simp: oneName_def colons_zero_iff)

lemma hasError_toProfile:
  "hasError (toProfile cps d) \<longleftrightarrow>
     d = [] \<or> (twoNamesSeparatedByColon d = None \<and> oneName d = None)"
  by (auto simp: toProfile_def PortProfile_default_def Let_def split: option.splits if_splits)

lemma hasError_iff_InvalidDesignation:
  "hasError (toProfile cps d) \<longleftrightarrow> InvalidDesignation d"
  unfolding hasError_toProfile twoNamesSeparatedByColon_None_iff oneName_None_iff
    InvalidDesignation_def
  by (cases "colons d") auto

lemma toProfile_error_fields:
  "hasError (toProfile cps d) \<Longrightarrow>
     \<exists>msg. msg \<noteq> [] \<and>
       toProfile cps d = PortProfile_default\<lparr>caps := cps, hasError := True, errorMessage := msg\<rparr>"
  by (auto simp: toProfile_def PortProfile_default_def Let_def split: option.splits if_splits)

text \<open>
  C6: The empty designation, a designation with more than one colon, and a
  designation with one colon and an empty token before or after it, give a profile
  with the error flag set and a non-empty message, whose other fields are those of
  a default-constructed profile (with the requested capabilities); every other
  designation gives a profile without error. The parser is a total function: it
  has no exceptional result.
\<close>

theorem toProfile_InvalidDesignation:
  "(InvalidDesignation d \<longrightarrow>
      (\<exists>msg. msg \<noteq> [] \<and>
         toProfile cps d
           = PortProfile_default\<lparr>caps := cps, hasError := True, errorMessage := msg\<rparr>))
   \<and> (\<not> InvalidDesignation d \<longrightarrow> \<not> hasError (toProfile cps d))"
  using hasError_iff_InvalidDesignation [of cps d] toProfile_error_fields [of cps d]
  by blast

lemma InvalidDesignation_examples:
  "InvalidDesignation ''''" "InvalidDesignation '':''" "InvalidDesignation ''a:b:c''"
  "InvalidDesignation '':c''" "InvalidDesignation ''a:''"
  "\<not> InvalidDesignation ''abc''" "\<not> InvalidDesignation ''128:01''"
  by (simp_all add: InvalidDesignation_def colons_def)

theorem toProfile_InvalidDesignation_witness:
  "InvalidDesignation '''' \<and> hasError (toProfile SENDER_PORT '''')
   \<and> InvalidDesignation '':'' \<and> hasError (toProfile SENDER_PORT '':'')
   \<and> InvalidDesignation ''a:b:c'' \<and> hasError (toProfile SENDER_PORT ''a:b:c'')
   \<and> InvalidDesignation '':c'' \<and> hasError (toProfile SENDER_PORT '':c'')
   \<and> InvalidDesignation ''a:'' \<and> hasError (toProfile SENDER_PORT ''a:'')
   \<and> \<not> InvalidDesignation ''abc'' \<and> \<not> hasError (toProfile SENDER_PORT ''abc'')
   \<and> \<not> InvalidDesignation ''128:01'' \<and> \<not> hasError (toProfile SENDER_PORT ''128:01'')"
proof -
  have invalid: "hasError (toProfile SENDER_PORT d)" if "InvalidDesignation d" for d
    using that toProfile_InvalidDesignation [of d SENDER_PORT] by auto
  have valid: "\<not> hasError (toProfile SENDER_PORT d)" if "\<not> InvalidDesignation d" for d
    using that toProfile_InvalidDesignation [of d SENDER_PORT] by blast
  show ?thesis
    using InvalidDesignation_examples by (simp add: invalid valid)
qed

section \<open>Properties of the numeric interpretation and of the matcher\<close>

text \<open>
  C7: The designation \<open>12abc\<close> is one token that is not a pure integer, yet its
  numeric interpretation is 12 and not \<open>NULL_ID\<close>: \<open>std::stoi\<close> converts the leading
  digits and ignores what follows them. In the same way the second token of
  \<open>a:7.5\<close> has the numeric interpretation 7. The second token of \<open>a:1 2\<close> is
  normalized to \<open>12\<close> before the conversion, and its numeric interpretation is 12.
\<close>

theorem toProfile_numeric_prefix:
  "firstName (toProfile SENDER_PORT ''12abc'') = ''12abc''
   \<and> firstInt (toProfile SENDER_PORT ''12abc'') = 12
   \<and> firstInt (toProfile SENDER_PORT ''12abc'') \<noteq> NULL_ID
   \<and> secondInt (toProfile SENDER_PORT ''a:1 2'') = 12
   \<and> secondInt (toProfile SENDER_PORT ''a:7.5'') = 7"
  by (simp add: toProfile_def twoNamesSeparatedByColon_def oneName_def
      PortProfile_default_def normalizedIdentifier_def identifierStrToInt_def stoi_def
      isspace_def isdigit_def alphanumeric_def digits_value_def digit_value_def NULL_ID_def)

text \<open>
  C4: For a profile without error, \<open>match\<close> is false when the capabilities of the
  candidate do not fulfil the requested ones. When they do, a profile with colon
  matches if and only if the first number is the client number and the second
  number or normalized second name is that of the port, or the normalized first
  name is that of the client and the normalized second name or the second number
  is that of the port; a profile without colon matches if and only if its
  normalized first name is the normalized name of the port.
\<close>

theorem match_iff:
  assumes "\<not> hasError P"
  shows
    "(\<not> fulfills cps (caps P) \<longrightarrow> \<not> match cps portId clientName portName P)
     \<and> (fulfills cps (caps P) \<and> hasColon P \<longrightarrow>
          (match cps portId clientName portName P \<longleftrightarrow>
             (firstInt P = client portId
                \<and> (secondInt P = port portId
                     \<or> normalizedIdentifier (secondName P) = normalizedIdentifier portName))
             \<or> (normalizedIdentifier (firstName P) = normalizedIdentifier clientName
                  \<and> (normalizedIdentifier (secondName P) = normalizedIdentifier portName
                       \<or> secondInt P = port portId))))
     \<and> (fulfills cps (caps P) \<and> \<not> hasColon P \<longrightarrow>
          (match cps portId clientName portName P \<longleftrightarrow>
             normalizedIdentifier (firstName P) = normalizedIdentifier portName))"
  by (auto simp: match_def Let_def)

lemmas parser_defs =
  toProfile_def twoNamesSeparatedByColon_def oneName_def
  PortProfile_default_def normalizedIdentifier_def identifierStrToInt_def stoi_def
  isspace_def isdigit_def alphanumeric_def digits_value_def digit_value_def NULL_ID_def
  SENDER_PORT_def SND_SEQ_PORT_CAP_READ_def SND_SEQ_PORT_CAP_SUBS_READ_def

lemma example_profiles:
  "toProfile SENDER_PORT ''14:Midi Through Port-0''
     = \<lparr>hasError = False, errorMessage = [], caps = 33, hasColon = True, firstInt = 14,
        firstName = ''14'', secondInt = - 1, secondName = ''MidiThroughPort_0''\<rparr>"
  "toProfile SENDER_PORT ''Announce''
     = \<lparr>hasError = False, errorMessage = [], caps = 33, hasColon = False, firstInt = - 1,
        firstName = ''Announce'', secondInt = - 1, secondName = []\<rparr>"
  by (simp_all add: parser_defs)

theorem match_iff_witness:
  "\<not> hasError (toProfile SENDER_PORT ''14:Midi Through Port-0'')
   \<and> \<not> fulfills 2 (caps (toProfile SENDER_PORT ''14:Midi Through Port-0''))
   \<and> \<not> match 2 \<lparr>client = 14, port = 0\<rparr> ''Midi Through'' ''Midi Through Port-0''
         (toProfile SENDER_PORT ''14:Midi Through Port-0'')
   \<and> fulfills 99 (caps (toProfile SENDER_PORT ''14:Midi Through Port-0''))
   \<and> hasColon (toProfile SENDER_PORT ''14:Midi Through Port-0'')
   \<and> match 99 \<lparr>client = 14, port = 0\<rparr> ''Midi Through'' ''Midi Through Port-0''
         (toProfile SENDER_PORT ''14:Midi Through Port-0'')
   \<and> \<not> hasError (toProfile SENDER_PORT ''Announce'')
   \<and> fulfills 33 (caps (toProfile SENDER_PORT ''Announce''))
   \<and> \<not> hasColon (toProfile SENDER_PORT ''Announce'')
   \<and> match 33 \<lparr>client = 0, port = 1\<rparr> ''System'' ''Announce''
         (toProfile SENDER_PORT ''Announce'')
   \<and> \<not> match 33 \<lparr>client = 0, port = 0\<rparr> ''System'' ''Timer''
         (toProfile SENDER_PORT ''Announce'')"
proof -
  let ?P = "toProfile SENDER_PORT ''14:Midi Through Port-0''"
  let ?Q = "toProfile SENDER_PORT ''Announce''"
  have P: "\<not> hasError ?P" and Q: "\<not> hasError ?Q"
    by (simp_all add: example_profiles)
  have norm: "normalizedIdentifier ''Midi Through Port-0'' = ''MidiThroughPort_0''"
    "normalizedIdentifier ''MidiThroughPort_0'' = ''MidiThroughPort_0''"
    "normalizedIdentifier ''Announce'' = ''Announce''"
    "normalizedIdentifier ''Timer'' = ''Timer''"
    by (simp_all add: parser_defs)
  have f: "\<not> fulfills 2 (caps ?P)" "fulfills 99 (caps ?P)" "fulfills 33 (caps ?Q)"
    by (simp_all add: example_profiles fulfills_def)
  show ?thesis
    using match_iff [OF P, of 2 "\<lparr>client = 14, port = 0\<rparr>" "''Midi Through''" "''Midi Through Port-0''"]
      match_iff [OF P, of 99 "\<lparr>client = 14, port = 0\<rparr>" "''Midi Through''" "''Midi Through Port-0''"]
      match_iff [OF Q, of 33 "\<lparr>client = 0, port = 1\<rparr>" "''System''" "''Announce''"]
      match_iff [OF Q, of 33 "\<lparr>client = 0, port = 0\<rparr>" "''System''" "''Timer''"]
      P Q f
    by (simp add: example_profiles norm)
qed

section \<open>Properties of the search\<close>

lemma first_match_append:
  "first_match P m (xs @ ys) c =
     (case first_match P m xs c of
        (Some portId, c1) \<Rightarrow> (Some portId, c1)
      | (None, c1) \<Rightarrow> first_match P m ys c1)"
  by (induction xs arbitrary: c) (auto split: prod.splits)

lemma findPort_ports_first_match:
  "findPort_ports P m nr name ps c = (found, c1, fx) \<Longrightarrow>
     first_match P m
       (map (\<lambda>p. (capability p, \<lparr>client = nr, port = port_nr p\<rparr>, name, port_name p)) ps) c
     = (found, c1)"
  by (induction ps arbitrary: c found c1 fx) (auto simp: Let_def split: prod.splits if_splits)

lemma findPort_ports_exhausted:
  "findPort_ports P m nr name ps c = (None, c1, fx) \<Longrightarrow>
     fx = replicate (Suc (length ps)) (Query_next_port nr)"
  by (induction ps arbitrary: c fx) (auto simp: Let_def split: prod.splits if_splits)

lemma findPort_clients_first_match:
  "findPort_clients P m cs c = (found, c1, fx) \<Longrightarrow>
     first_match P m
         (concat (map (\<lambda>ci. map (\<lambda>p. (capability p, \<lparr>client = client_nr ci, port = port_nr p\<rparr>,
                                        client_name ci, port_name p)) (ports ci)) cs)) c
     = (found, c1)"
proof (induction cs arbitrary: c found c1 fx)
  case Nil
  then show ?case by simp
next
  case (Cons ci cs)
  obtain found2 c2 fx2 where
    p: "findPort_ports P m (client_nr ci) (client_name ci) (ports ci) c = (found2, c2, fx2)"
    by (cases "findPort_ports P m (client_nr ci) (client_name ci) (ports ci) c")
  have fm: "first_match P m
         (map (\<lambda>p. (capability p, \<lparr>client = client_nr ci, port = port_nr p\<rparr>,
                      client_name ci, port_name p)) (ports ci)) c = (found2, c2)"
    using p by (rule findPort_ports_first_match)
  show ?case
  proof (cases found2)
    case None
    obtain found3 c3 fx3 where r: "findPort_clients P m cs c2 = (found3, c3, fx3)"
      by (cases "findPort_clients P m cs c2")
    from Cons.prems p None r have "found = found3" "c1 = c3"
      by (simp_all add: Let_def)
    with Cons.IH [OF r] fm None show ?thesis
      by (simp add: first_match_append)
  next
    case (Some portId)
    with Cons.prems p have "found = Some portId" "c1 = c2"
      by (simp_all add: Let_def)
    with fm Some show ?thesis
      by (simp add: first_match_append)
  qed
qed

lemma findPort_clients_exhausted:
  "findPort_clients P m cs c = (None, c1, fx) \<Longrightarrow>
     fx = concat (map (\<lambda>ci. Query_next_client
                         # replicate (Suc (length (ports ci))) (Query_next_port (client_nr ci))) cs)
            @ [Query_next_client]"
proof (induction cs arbitrary: c c1 fx)
  case Nil
  then show ?case by simp
next
  case (Cons ci cs)
  obtain found c2 fx2 where
    p: "findPort_ports P m (client_nr ci) (client_name ci) (ports ci) c = (found, c2, fx2)"
    by (cases "findPort_ports P m (client_nr ci) (client_name ci) (ports ci) c")
  show ?case
  proof (cases found)
    case None
    obtain found3 c3 fx3 where r: "findPort_clients P m cs c2 = (found3, c3, fx3)"
      by (cases "findPort_clients P m cs c2")
    from Cons.prems p None r have "found3 = None" and fx: "fx = Query_next_client # fx2 @ fx3"
      by (simp_all add: Let_def)
    with r Cons.IH [of c2 c3 fx3] have "fx3 = concat (map (\<lambda>ci. Query_next_client
                         # replicate (Suc (length (ports ci))) (Query_next_port (client_nr ci))) cs)
            @ [Query_next_client]" by simp
    moreover have "fx2 = replicate (Suc (length (ports ci))) (Query_next_port (client_nr ci))"
      using p unfolding None by (rule findPort_ports_exhausted)
    ultimately show ?thesis using fx by simp
  next
    case (Some portId)
    with Cons.prems p show ?thesis by (simp add: Let_def)
  qed
qed

lemma findPort_search:
  "(hasError P \<longrightarrow> findPort P m c sq = (NULL_PORT_ID, c, []))
   \<and> (\<not> hasError P \<longrightarrow>
        fst (findPort P m c sq)
          = (case fst (first_match P m (candidates sq) c) of
               Some portId \<Rightarrow> portId | None \<Rightarrow> NULL_PORT_ID)
        \<and> fst (snd (findPort P m c sq)) = snd (first_match P m (candidates sq) c)
        \<and> (fst (first_match P m (candidates sq) c) = None \<longrightarrow>
             snd (snd (findPort P m c sq)) = full_enumeration sq))"
proof -
  obtain found c1 fx where r: "findPort_clients P m (seq_clients sq) c = (found, c1, fx)"
    by (cases "findPort_clients P m (seq_clients sq) c")
  have fm: "first_match P m (candidates sq) c = (found, c1)"
    unfolding candidates_def using r by (rule findPort_clients_first_match)
  have "fx = full_enumeration sq" if "found = None"
    using that r findPort_clients_exhausted [of P m "seq_clients sq" c c1 fx]
    by (simp add: full_enumeration_def)
  then show ?thesis
    using r fm by (auto simp: findPort_def split: option.splits)
qed

lemma up_to_first_Nil: "up_to_first p [] = []"
  by (simp add: up_to_first_def)

lemma up_to_first_Cons:
  "up_to_first p (x # xs) = (if p x then [x] else x # up_to_first p xs)"
  by (simp add: up_to_first_def)

lemma first_match_recording:
  "first_match P (recording mf) xs asked
     = (map_option (\<lambda>(cps, portId, clientName, portName). portId)
          (find (\<lambda>(cps, portId, clientName, portName). mf cps portId clientName portName P) xs),
        asked @ map (\<lambda>(cps, portId, clientName, portName). portId)
                  (up_to_first
                     (\<lambda>(cps, portId, clientName, portName). mf cps portId clientName portName P)
                     xs))"
proof (induction xs arbitrary: asked)
  case Nil
  show ?case by (simp add: up_to_first_Nil)
next
  case (Cons x xs)
  obtain cps portId clientName portName where x: "x = (cps, portId, clientName, portName)"
    by (cases x)
  show ?case
    using Cons.IH [of "asked @ [portId]"]
    by (simp add: x recording_def up_to_first_Cons)
qed

text \<open>
  C5: With the error flag set, \<open>findPort\<close> returns \<open>NULL_PORT_ID\<close> at once: the match
  function is not invoked (its state is unchanged) and no request is sent to the
  sequencer. Otherwise the match function is applied to the ports of all clients in
  the order of enumeration, once each, until it answers true; the result is the
  identity of that port, or \<open>NULL_PORT_ID\<close> when there is none, in which case the
  requests to the sequencer are the full enumeration of every client and every port.
  In particular, for a match function without state, the result is the first port in
  the order of enumeration on which it is true, and the ports it has been asked
  about are the ports up to and including that one, each once.
\<close>

theorem findPort_first_match:
  "(hasError P \<longrightarrow> findPort P m c sq = (NULL_PORT_ID, c, []))
   \<and> (\<not> hasError P \<longrightarrow>
        fst (findPort P m c sq)
          = (case fst (first_match P m (candidates sq) c) of
               Some portId \<Rightarrow> portId | None \<Rightarrow> NULL_PORT_ID)
        \<and> fst (snd (findPort P m c sq)) = snd (first_match P m (candidates sq) c)
        \<and> (fst (first_match P m (candidates sq) c) = None \<longrightarrow>
             snd (snd (findPort P m c sq)) = full_enumeration sq))
   \<and> (\<not> hasError P \<longrightarrow>
        fst (findPort P (recording mf) asked sq)
          = (case find (\<lambda>(cps, portId, clientName, portName).
                           mf cps portId clientName portName P) (candidates sq) of
               Some (cps, portId, clientName, portName) \<Rightarrow> portId
             | None \<Rightarrow> NULL_PORT_ID)
        \<and> fst (snd (findPort P (recording mf) asked sq))
          = asked @ map (\<lambda>(cps, portId, clientName, portName). portId)
                      (up_to_first (\<lambda>(cps, portId, clientName, portName).
                                      mf cps portId clientName portName P) (candidates sq)))"
proof -
  have "fst (findPort P (recording mf) asked sq)
          = (case find (\<lambda>(cps, portId, clientName, portName).
                           mf cps portId clientName portName P) (candidates sq) of
               Some (cps, portId, clientName, portName) \<Rightarrow> portId
             | None \<Rightarrow> NULL_PORT_ID)
        \<and> fst (snd (findPort P (recording mf) asked sq))
          = asked @ map (\<lambda>(cps, portId, clientName, portName). portId)
                      (up_to_first (\<lambda>(cps, portId, clientName, portName).
                                      mf cps portId clientName portName P) (candidates sq))"
    if "\<not> hasError P"
    using that findPort_search [of P "recording mf" asked sq]
    by (auto simp: first_match_recording split: option.splits)
  then show ?thesis
    using findPort_search [of P m c sq] by blast
qed

lemma example_first_match:
  "first_match (toProfile SENDER_PORT ''Announce'') (recording match)
       (candidates example_sequencer) []
     = (Some \<lparr>client = 0, port = 1\<rparr>, [\<lparr>client = 0, port = 0\<rparr>, \<lparr>client = 0, port = 1\<rparr>])"
  "first_match PortProfile_default counting_callback (candidates example_sequencer) 0
     = (None, 3)"
  by code_simp+

lemma example_find:
  "find (\<lambda>(cps, portId, clientName, portName).
           match cps portId clientName portName (toProfile SENDER_PORT ''Announce''))
     (candidates example_sequencer)
   = Some (33, \<lparr>client = 0, port = 1\<rparr>, ''System'', ''Announce'')"
  "up_to_first (\<lambda>(cps, portId, clientName, portName).
                  match cps portId clientName portName (toProfile SENDER_PORT ''Announce''))
     (candidates example_sequencer)
   = [(33, \<lparr>client = 0, port = 0\<rparr>, ''System'', ''Timer''),
      (33, \<lparr>client = 0, port = 1\<rparr>, ''System'', ''Announce'')]"
  by code_simp+

theorem findPort_first_match_witness:
  "hasError (toProfile SENDER_PORT ''a:b:c'')
   \<and> findPort (toProfile SENDER_PORT ''a:b:c'') (recording match) [] example_sequencer
       = (NULL_PORT_ID, [], [])
   \<and> \<not> hasError (toProfile SENDER_PORT ''Announce'')
   \<and> fst (findPort (toProfile SENDER_PORT ''Announce'') (recording match) [] example_sequencer)
       = \<lparr>client = 0, port = 1\<rparr>
   \<and> fst (snd (findPort (toProfile SENDER_PORT ''Announce'') (recording match) []
                  example_sequencer))
       = [\<lparr>client = 0, port = 0\<rparr>, \<lparr>client = 0, port = 1\<rparr>]
   \<and> \<not> hasError PortProfile_default
   \<and> fst (first_match PortProfile_default counting_callback (candidates example_sequencer) 0)
       = None
   \<and> fst (findPort PortProfile_default counting_callback 0 example_sequencer) = NULL_PORT_ID
   \<and> fst (snd (findPort PortProfile_default counting_callback 0 example_sequencer)) = 3
   \<and> snd (snd (findPort PortProfile_default counting_callback 0 example_sequencer))
       = full_enumeration example_sequencer"
proof -
  have e: "hasError (toProfile SENDER_PORT ''a:b:c'')"
    "\<not> hasError (toProfile SENDER_PORT ''Announce'')" "\<not> hasError PortProfile_default"
    using InvalidDesignation_examples
    by (simp_all add: hasError_iff_InvalidDesignation PortProfile_default_def
        InvalidDesignation_def colons_def)
  have a: "findPort (toProfile SENDER_PORT ''a:b:c'') (recording match) [] example_sequencer
       = (NULL_PORT_ID, [], [])"
    using findPort_first_match [of "toProfile SENDER_PORT ''a:b:c''" "recording match" "[]"
        example_sequencer match "[]"] e(1)
    by blast
  have "fst (findPort (toProfile SENDER_PORT ''Announce'') (recording match) []
               example_sequencer)
          = (case find (\<lambda>(cps, portId, clientName, portName).
                          match cps portId clientName portName
                            (toProfile SENDER_PORT ''Announce''))
                    (candidates example_sequencer) of
               Some (cps, portId, clientName, portName) \<Rightarrow> portId
             | None \<Rightarrow> NULL_PORT_ID)
        \<and> fst (snd (findPort (toProfile SENDER_PORT ''Announce'') (recording match) []
                       example_sequencer))
          = [] @ map (\<lambda>(cps, portId, clientName, portName). portId)
                   (up_to_first (\<lambda>(cps, portId, clientName, portName).
                                   match cps portId clientName portName
                                     (toProfile SENDER_PORT ''Announce''))
                      (candidates example_sequencer))"
    using findPort_first_match [of "toProfile SENDER_PORT ''Announce''" "recording match" "[]"
        example_sequencer match "[]"] e(2)
    by blast
  then have b: "fst (findPort (toProfile SENDER_PORT ''Announce'') (recording match) []
               example_sequencer) = \<lparr>client = 0, port = 1\<rparr>
        \<and> fst (snd (findPort (toProfile SENDER_PORT ''Announce'') (recording match) []
                       example_sequencer))
          = [\<lparr>client = 0, port = 0\<rparr>, \<lparr>client = 0, port = 1\<rparr>]"
    by (simp add: example_find)
  have "fst (findPort PortProfile_default counting_callback 0 example_sequencer)
          = (case fst (first_match PortProfile_default counting_callback
                         (candidates example_sequencer) 0) of
               Some portId \<Rightarrow> portId | None \<Rightarrow> NULL_PORT_ID)
        \<and> fst (snd (findPort PortProfile_default counting_callback 0 example_sequencer))
          = snd (first_match PortProfile_default counting_callback
                   (candidates example_sequencer) 0)
        \<and> (fst (first_match PortProfile_default counting_callback
                   (candidates example_sequencer) 0) = None \<longrightarrow>
             snd (snd (findPort PortProfile_default counting_callback 0 example_sequencer))
               = full_enumeration example_sequencer)"
    using findPort_first_match [of PortProfile_default counting_callback 0
        example_sequencer match "[]"] e(3)
    by blast
  then have c: "fst (findPort PortProfile_default counting_callback 0 example_sequencer)
          = NULL_PORT_ID
        \<and> fst (snd (findPort PortProfile_default counting_callback 0 example_sequencer)) = 3
        \<and> snd (snd (findPort PortProfile_default counting_callback 0 example_sequencer))
               = full_enumeration example_sequencer"
    by (simp add: example_first_match)
  show ?thesis
    using e a b c by (simp add: example_first_match)
qed

section \<open>Properties of the retrieval\<close>

lemma processClosure_failed:
  "err \<noteq> 0 \<Longrightarrow>
     foldl (\<lambda>a (event, timeStamp). processClosure decode cb event timeStamp a) (err, c) evs
       = (err, c)"
  by (induction evs) (auto simp: processClosure_def Let_def)

lemma processClosure_delivers:
  "foldl (\<lambda>a (event, timeStamp). processClosure decode cb event timeStamp a) (0, c) evs
     = deliver_until_failure cb
         (filter (\<lambda>(midiEvent, timeStamp). midiEvent \<noteq> [])
            (map (\<lambda>(event, timeStamp). (parseAlsaEvent decode event, timeStamp)) evs)) c"
proof (induction evs arbitrary: c)
  case Nil
  show ?case by simp
next
  case (Cons e evs)
  obtain event timeStamp where e: "e = (event, timeStamp)" by (cases e)
  show ?case
  proof (cases "parseAlsaEvent decode event = []")
    case True
    then show ?thesis using Cons.IH [of c] by (simp add: e processClosure_def)
  next
    case False
    obtain status c1 where cb: "cb (parseAlsaEvent decode event) timeStamp c = (status, c1)"
      by (cases "cb (parseAlsaEvent decode event) timeStamp c")
    show ?thesis
    proof (cases "status = 0")
      case True
      then show ?thesis using False cb Cons.IH [of c1] by (simp add: e processClosure_def)
    next
      case nz: False
      have "processClosure decode cb event timeStamp (0, c) = (status, c1)"
        using False cb by (simp add: processClosure_def)
      then have "foldl (\<lambda>a (event, timeStamp). processClosure decode cb event timeStamp a)
                   (0, c) (e # evs)
                 = foldl (\<lambda>a (event, timeStamp). processClosure decode cb event timeStamp a)
                     (status, c1) evs"
        by (simp add: e)
      also have "\<dots> = (status, c1)"
        using nz by (rule processClosure_failed)
      finally show ?thesis using nz False cb by (simp add: e)
    qed
  qed
qed

lemma retrieve_delivers:
  assumes "g_stateFlag g = running"
  shows "retrieve decode deadline cb c g queue
           = (fst (deliver_until_failure cb (deliverable decode deadline queue) c),
              snd (deliver_until_failure cb (deliverable decode deadline queue) c),
              filter (\<lambda>(event, timeStamp). deadline < timeStamp) queue)"
proof -
  have "filter (\<lambda>(event, timeStamp). \<not> timeStamp \<le> deadline) queue
          = filter (\<lambda>(event, timeStamp). deadline < timeStamp) queue"
    by (rule filter_cong) auto
  then show ?thesis
    using assms
    by (simp add: retrieve_def receiverQueue_process_def processClosure_delivers
        deliverable_def split: prod.splits)
qed

lemma deliver_until_failure_recording:
  "deliver_until_failure (recording_callback status) evs given
     = ((case find (\<lambda>(midiEvent, timeStamp). status midiEvent timeStamp \<noteq> 0) evs of
           None \<Rightarrow> 0
         | Some (midiEvent, timeStamp) \<Rightarrow> status midiEvent timeStamp),
        given @ up_to_first (\<lambda>(midiEvent, timeStamp). status midiEvent timeStamp \<noteq> 0) evs)"
proof (induction evs arbitrary: given)
  case Nil
  show ?case by (simp add: up_to_first_Nil)
next
  case (Cons e evs)
  obtain midiEvent timeStamp where e: "e = (midiEvent, timeStamp)"
    by (cases e)
  show ?case
    using Cons.IH [of "given @ [(midiEvent, timeStamp)]"]
    by (simp add: e recording_callback_def up_to_first_Cons)
qed

text \<open>
  C3: In the running state, \<open>retrieve\<close> invokes the callback on the non-empty decoded
  events that were captured up to the deadline, in queue order, until the callback
  returns a status that is not zero; it returns that status, or zero when every
  invocation has returned zero or nothing was delivered. In every case all events
  captured up to the deadline are removed from the queue: what remains are the events
  captured after the deadline. In particular, for a callback whose status depends on
  the event only, the events it is given are the deliverable events up to and
  including the first one with a status that is not zero, and the result is that
  status.
\<close>

theorem retrieve_running:
  assumes "g_stateFlag g = running"
  shows "retrieve decode deadline cb c g queue
           = (fst (deliver_until_failure cb (deliverable decode deadline queue) c),
              snd (deliver_until_failure cb (deliverable decode deadline queue) c),
              filter (\<lambda>(event, timeStamp). deadline < timeStamp) queue)
         \<and> retrieve decode deadline (recording_callback status) given g queue
           = ((case find (\<lambda>(midiEvent, timeStamp). status midiEvent timeStamp \<noteq> 0)
                     (deliverable decode deadline queue) of
                 None \<Rightarrow> 0
               | Some (midiEvent, timeStamp) \<Rightarrow> status midiEvent timeStamp),
              given @ up_to_first (\<lambda>(midiEvent, timeStamp). status midiEvent timeStamp \<noteq> 0)
                        (deliverable decode deadline queue),
              filter (\<lambda>(event, timeStamp). deadline < timeStamp) queue)"
  using retrieve_delivers [OF assms, of decode deadline cb c queue]
    retrieve_delivers [OF assms, of decode deadline "recording_callback status" given queue]
  by (simp add: deliver_until_failure_recording)

lemma example_running_state:
  "g_stateFlag (example_running connectTo) = running"
  "g_portId (example_running connectTo) = 0"
  "g_clientId (example_running connectTo) = 128"
  "g_stateFlag (example_idle connectTo) = idle"
  by (simp_all add: example_running_def example_idle_def open_alsaClient_def
      newReceiverPort_def activate_def activateInternal_def activateConnectionMonitoring_def
      receiverQueue_start_def onMonitorConnections_def initial_globals_def
      example_sequencer_def ALSA_ERROR_def NULL_ID_def Let_def)

lemma example_deliverable:
  "deliverable example_decode 10
     [((1, [1, 0, 0]), 3), ((- 2, []), 4), ((1, [2]), 5), ((1, [3]), 10), ((1, [4]), 11)]
   = [([1], 3), ([2], 5), ([3], 10)]"
  by (simp add: deliverable_def example_decode_def parseAlsaEvent_def)

theorem retrieve_running_witness:
  "g_stateFlag (example_running ''14:0'') = running
   \<and> retrieve example_decode 10 (recording_callback example_status) []
        (example_running ''14:0'')
        [((1, [1, 0, 0]), 3), ((- 2, []), 4), ((1, [2]), 5), ((1, [3]), 10), ((1, [4]), 11)]
      = (7, [([1], 3), ([2], 5)], [((1, [4]), 11)])"
  using retrieve_running [of "example_running ''14:0''" example_decode 10
      "recording_callback example_status" "[]"
      "[((1, [1, 0, 0]), 3), ((- 2, []), 4), ((1, [2]), 5), ((1, [3]), 10), ((1, [4]), 11)]"
      example_status "[]"]
  by (simp add: example_running_state example_deliverable example_status_def
      recording_callback_def up_to_first_Cons up_to_first_Nil)

text \<open>
  C8: When the state is not \<open>running\<close>, \<open>retrieve\<close> returns the status \<open>-1\<close>; the callback
  is not invoked (its state is unchanged) and the queue is as it was. The function
  has no exceptional result.
\<close>

theorem retrieve_not_running:
  assumes "g_stateFlag g \<noteq> running"
  shows "retrieve decode deadline cb c g queue = (- 1, c, queue)"
  using assms by (simp add: retrieve_def)

theorem retrieve_not_running_witness:
  "g_stateFlag (example_idle ''14:0'') \<noteq> running
   \<and> retrieve example_decode 10 (recording_callback example_status) [] (example_idle ''14:0'')
        [((1, [1, 0, 0]), 3), ((- 2, []), 4), ((1, [2]), 5), ((1, [3]), 10), ((1, [4]), 11)]
      = (- 1, [],
         [((1, [1, 0, 0]), 3), ((- 2, []), 4), ((1, [2]), 5), ((1, [3]), 10), ((1, [4]), 11)])"
  using retrieve_not_running [of "example_idle ''14:0''" example_decode 10 "recording_callback example_status" "[]"
      "[((1, [1, 0, 0]), 3), ((- 2, []), 4), ((1, [2]), 5), ((1, [3]), 10), ((1, [4]), 11)]"]
  by (simp add: example_running_state)

section \<open>Properties of the session\<close>

text \<open>
  C10: When the state is \<open>closed\<close>, or when no receiver port has been created,
  \<open>receiverPortGetConnections\<close> returns the empty list and sends no request to the
  sequencer; it has no exceptional result.
\<close>

theorem receiverPortGetConnections_no_port:
  assumes "g_stateFlag g = closed \<or> g_portId g = NULL_ID"
  shows "receiverPortGetConnections g sq = ([], [])"
  using assms by (auto simp: receiverPortGetConnections_def)

lemma example_open:
  "open_alsaClient ''a2jmidi'' example_sequencer initial_globals
     = (None,
        \<lparr>g_portId = - 1, g_sequencerHandle = True, g_midiEventParserHandle = True,
         g_clientId = 128, g_stateFlag = idle, g_connectTo = [],
         g_onMonitorConnectionsHandler = None, g_monitoringActive = False,
         receiverQueue_started = False, monitor_threads = []\<rparr>,
        [Seq_open, Set_client_name ''a2jmidi'', Midi_event_new, Client_id])"
  by (simp add: open_alsaClient_def initial_globals_def example_sequencer_def ALSA_ERROR_def
      NULL_ID_def)

theorem receiverPortGetConnections_no_port_witness:
  "(g_stateFlag initial_globals = closed \<or> g_portId initial_globals = NULL_ID)
   \<and> receiverPortGetConnections initial_globals example_sequencer = ([], [])
   \<and> (g_stateFlag (fst (snd (open_alsaClient ''a2jmidi'' example_sequencer initial_globals)))
         = closed
       \<or> g_portId (fst (snd (open_alsaClient ''a2jmidi'' example_sequencer initial_globals)))
         = NULL_ID)
   \<and> g_stateFlag (fst (snd (open_alsaClient ''a2jmidi'' example_sequencer initial_globals)))
         = idle
   \<and> receiverPortGetConnections
         (fst (snd (open_alsaClient ''a2jmidi'' example_sequencer initial_globals)))
         example_sequencer = ([], [])"
proof -
  have a: "g_stateFlag initial_globals = closed \<or> g_portId initial_globals = NULL_ID"
    by (simp add: initial_globals_def)
  have b: "g_stateFlag (fst (snd (open_alsaClient ''a2jmidi'' example_sequencer initial_globals)))
         = closed
       \<or> g_portId (fst (snd (open_alsaClient ''a2jmidi'' example_sequencer initial_globals)))
         = NULL_ID"
    by (simp add: example_open NULL_ID_def)
  show ?thesis
    using receiverPortGetConnections_no_port [OF a, of example_sequencer]
      receiverPortGetConnections_no_port [OF b, of example_sequencer] a b
    by (simp add: example_open)
qed

text \<open>
  C2: \<open>open\<close> outside of the state \<open>closed\<close>, \<open>newReceiverPort\<close> outside of the state
  \<open>idle\<close> and \<open>activate\<close> outside of the state \<open>idle\<close> throw a \<open>BadStateException\<close>; the
  session is as it was before the call, so that \<open>state\<close> gives the same answer after
  the failed attempt as before, and no request has been sent to the sequencer.
\<close>

theorem BadState_leaves_state:
  "(g_stateFlag g \<noteq> closed \<longrightarrow>
      (\<exists>msg g'. open_alsaClient name sq g = (Some (BadStateException msg), g', [])
         \<and> g' = g \<and> state g' = state g))
   \<and> (g_stateFlag g \<noteq> idle \<longrightarrow>
      (\<exists>msg g'. newReceiverPort name connectTo sq g = (Some (BadStateException msg), g', [])
         \<and> g' = g \<and> state g' = state g))
   \<and> (g_stateFlag g \<noteq> idle \<longrightarrow>
      (\<exists>msg g'. activate g = (Some (BadStateException msg), g')
         \<and> g' = g \<and> state g' = state g))"
  by (simp add: open_alsaClient_def newReceiverPort_def activate_def)

lemma example_sequencer_fields:
  "rc_create_simple_port example_sequencer = 0"
  "seq_subscriptions example_sequencer = []"
  "rc_connect_from example_sequencer myPort (- 1) (- 1) = - 22"
  by (simp_all add: example_sequencer_def)

lemma example_idle_value:
  "example_idle connectTo
     = \<lparr>g_portId = 0, g_sequencerHandle = True, g_midiEventParserHandle = True,
        g_clientId = 128, g_stateFlag = idle, g_connectTo = connectTo,
        g_onMonitorConnectionsHandler = Some DefaultConnectionsHandler,
        g_monitoringActive = False, receiverQueue_started = False, monitor_threads = []\<rparr>"
  by (simp add: example_idle_def example_open newReceiverPort_def onMonitorConnections_def
      example_sequencer_fields ALSA_ERROR_def NULL_ID_def)

lemma example_running_value:
  "example_running connectTo
     = \<lparr>g_portId = 0, g_sequencerHandle = True, g_midiEventParserHandle = True,
        g_clientId = 128, g_stateFlag = running, g_connectTo = connectTo,
        g_onMonitorConnectionsHandler = Some DefaultConnectionsHandler,
        g_monitoringActive = True, receiverQueue_started = True,
        monitor_threads = [monitorLoop_start]\<rparr>"
  by (simp add: example_running_def example_idle_value activate_def activateInternal_def
      activateConnectionMonitoring_def receiverQueue_start_def)

theorem BadState_leaves_state_witness:
  "g_stateFlag (example_idle ''14:0'') \<noteq> closed
   \<and> open_alsaClient ''again'' example_sequencer (example_idle ''14:0'')
       = (Some (BadStateException ''Cannot open ALSA client. Wrong state idle''),
          example_idle ''14:0'', [])
   \<and> g_stateFlag (example_running ''14:0'') \<noteq> idle
   \<and> newReceiverPort ''second'' ''0:1'' example_sequencer (example_running ''14:0'')
       = (Some (BadStateException ''Cannot create input port. Wrong state running''),
          example_running ''14:0'', [])
   \<and> activate (example_running ''14:0'')
       = (Some (BadStateException ''Cannot create activate. Wrong state running''),
          example_running ''14:0'')
   \<and> g_stateFlag initial_globals \<noteq> idle
   \<and> fst (activate initial_globals)
       = Some (BadStateException ''Cannot create activate. Wrong state closed'')
   \<and> state (snd (activate initial_globals)) = closed"
proof -
  have s: "g_stateFlag (example_idle ''14:0'') \<noteq> closed"
    "g_stateFlag (example_running ''14:0'') \<noteq> idle" "g_stateFlag initial_globals \<noteq> idle"
    by (simp_all add: example_idle_value example_running_value initial_globals_def)
  have m: "open_alsaClient ''again'' example_sequencer (example_idle ''14:0'')
       = (Some (BadStateException ''Cannot open ALSA client. Wrong state idle''),
          example_idle ''14:0'', [])"
    using BadState_leaves_state [of "example_idle ''14:0''" "''again''" example_sequencer] s
    by (auto simp: open_alsaClient_def stateAsString_def example_idle_value)
  have n: "newReceiverPort ''second'' ''0:1'' example_sequencer (example_running ''14:0'')
       = (Some (BadStateException ''Cannot create input port. Wrong state running''),
          example_running ''14:0'', [])
     \<and> activate (example_running ''14:0'')
       = (Some (BadStateException ''Cannot create activate. Wrong state running''),
          example_running ''14:0'')"
    using BadState_leaves_state [of "example_running ''14:0''" "''second''" example_sequencer
        "''0:1''"] s
    by (auto simp: newReceiverPort_def activate_def stateAsString_def example_running_value)
  have a: "fst (activate initial_globals)
       = Some (BadStateException ''Cannot create activate. Wrong state closed'')
     \<and> state (snd (activate initial_globals)) = closed"
    using BadState_leaves_state [of initial_globals "''x''" example_sequencer "''y''"] s
    by (auto simp: activate_def stateAsString_def initial_globals_def state_def)
  show ?thesis using s m n a by simp
qed

section \<open>The default handler on a target that cannot be resolved\<close>

lemma tryToConnect_unresolved:
  assumes "designation \<noteq> []"
    and "findPort (toProfile SENDER_PORT designation) match_callback () sq
           = (NULL_PORT_ID, (), fx)"
  shows "tryToConnect designation g sq
           = (if ALSA_ERROR (rc_connect_from sq (g_portId g) NULL_ID NULL_ID)
              then Some (runtime_error (''ALSA cannot connect to port ['' @ designation @ '']''))
              else None,
              fx @ [SPDLOG_INFO (''no such port named '' @ designation),
                    Connect_from (g_portId g) NULL_ID NULL_ID])"
  using assms by (simp add: tryToConnect_def NULL_PORT_ID_def)

lemma defaultConnectionsHandler_unresolved:
  assumes "connectTo \<noteq> []" and "g_portId g \<noteq> NULL_ID"
    and "receiverPortGetConnectionsInternal g sq = ([], fx1)"
    and "findPort (toProfile SENDER_PORT connectTo) match_callback () sq
           = (NULL_PORT_ID, (), fx2)"
  shows "defaultConnectionsHandler connectTo g sq
           = (if ALSA_ERROR (rc_connect_from sq (g_portId g) NULL_ID NULL_ID)
              then Some (runtime_error (''ALSA cannot connect to port ['' @ connectTo @ '']''))
              else None,
              fx1 @ fx2 @ [SPDLOG_INFO (''no such port named '' @ connectTo),
                           Connect_from (g_portId g) NULL_ID NULL_ID])"
  using assms tryToConnect_unresolved [OF assms(1) assms(4), of g]
  by (simp add: defaultConnectionsHandler_def)

lemma example_no_connections:
  "receiverPortGetConnectionsInternal (example_running connectTo) example_sequencer
     = ([], [Query_port_subscribers \<lparr>client = 128, port = 0\<rparr> 0])"
  by (simp add: receiverPortGetConnectionsInternal_def example_running_value
      snd_seq_query_port_subscribers_def subscribers_of_def example_sequencer_fields)

lemma example_no_such_port:
  "findPort (toProfile SENDER_PORT ''nosuchport'') match_callback () example_sequencer
     = (NULL_PORT_ID, (), full_enumeration example_sequencer)"
  by code_simp

text \<open>
  C1: The session is running with its receiver port created, nothing is connected to
  the port, and no port of the sequencer matches the designation \<open>nosuchport\<close>. The
  default handler logs that there is no such port, and then it goes on: it sends a
  connect request for the sender \<open>NULL_PORT_ID\<close>, and, as the sequencer rejects this
  request, it throws a \<open>runtime_error\<close>.
\<close>

theorem defaultConnectionsHandler_unresolved_target:
  "g_portId (example_running ''nosuchport'') \<noteq> NULL_ID
   \<and> fst (receiverPortGetConnectionsInternal (example_running ''nosuchport'') example_sequencer)
       = []
   \<and> fst (findPort (toProfile SENDER_PORT ''nosuchport'') match_callback () example_sequencer)
       = NULL_PORT_ID
   \<and> defaultConnectionsHandler ''nosuchport'' (example_running ''nosuchport'') example_sequencer
       = (Some (runtime_error ''ALSA cannot connect to port [nosuchport]''),
          [Query_port_subscribers \<lparr>client = 128, port = 0\<rparr> 0,
           Query_next_client, Query_next_port 0, Query_next_port 0, Query_next_port 0,
           Query_next_client, Query_next_port 14, Query_next_port 14,
           Query_next_client,
           SPDLOG_INFO ''no such port named nosuchport'',
           Connect_from 0 (- 1) (- 1)])"
proof -
  have p: "g_portId (example_running ''nosuchport'') \<noteq> NULL_ID"
    by (simp add: example_running_value NULL_ID_def)
  have "defaultConnectionsHandler ''nosuchport'' (example_running ''nosuchport'')
          example_sequencer
        = (Some (runtime_error ''ALSA cannot connect to port [nosuchport]''),
           [Query_port_subscribers \<lparr>client = 128, port = 0\<rparr> 0]
             @ full_enumeration example_sequencer
             @ [SPDLOG_INFO ''no such port named nosuchport'', Connect_from 0 (- 1) (- 1)])"
    using defaultConnectionsHandler_unresolved [OF _ p example_no_connections
        example_no_such_port]
    by (simp add: example_running_value NULL_ID_def ALSA_ERROR_def example_sequencer_fields)
  moreover have "full_enumeration example_sequencer
        = [Query_next_client, Query_next_port 0, Query_next_port 0, Query_next_port 0,
           Query_next_client, Query_next_port 14, Query_next_port 14, Query_next_client]"
    by (simp add: full_enumeration_def example_sequencer_def)
  ultimately show ?thesis
    using p by (simp add: example_no_connections example_no_such_port)
qed

section \<open>Stopping the monitor\<close>

text \<open>
  The flag is true in the running state only: this holds initially and is preserved
  by every operation of the life cycle.
\<close>

lemma monitoring_only_while_running:
  assumes "g_monitoringActive g \<longrightarrow> g_stateFlag g = running"
  shows "g_monitoringActive (fst (snd (open_alsaClient name sq g)))
           \<longrightarrow> g_stateFlag (fst (snd (open_alsaClient name sq g))) = running"
    and "g_monitoringActive (fst (snd (newReceiverPort name connectTo sq g)))
           \<longrightarrow> g_stateFlag (fst (snd (newReceiverPort name connectTo sq g))) = running"
    and "g_monitoringActive (snd (activate g)) \<longrightarrow> g_stateFlag (snd (activate g)) = running"
    and "g_monitoringActive (stop g) \<longrightarrow> g_stateFlag (stop g) = running"
    and "g_monitoringActive (fst (close_alsaClient g))
           \<longrightarrow> g_stateFlag (fst (close_alsaClient g)) = running"
  using assms
  by (auto simp: open_alsaClient_def newReceiverPort_def onMonitorConnections_def activate_def
      activateInternal_def activateConnectionMonitoring_def receiverQueue_start_def stop_def
      close_alsaClient_def stopInternal_def stopConnectionMonitoring_def receiverQueue_stop_def
      Let_def split: if_splits)

lemma monitoring_initially_off:
  "g_monitoringActive initial_globals \<longrightarrow> g_stateFlag initial_globals = running"
  by (simp add: initial_globals_def)

lemma stop_clears_flag:
  "g_monitoringActive g \<longrightarrow> g_stateFlag g = running \<Longrightarrow> \<not> g_monitoringActive (stop g)"
  by (auto simp: stop_def stopInternal_def stopConnectionMonitoring_def receiverQueue_stop_def)

lemma close_clears_flag:
  "g_monitoringActive g \<longrightarrow> g_stateFlag g = running \<Longrightarrow>
     \<not> g_monitoringActive (fst (close_alsaClient g))"
  by (auto simp: close_alsaClient_def stopInternal_def stopConnectionMonitoring_def
      receiverQueue_stop_def)

text \<open>
  No call but \<open>activate\<close> sets the flag, and no call but \<open>activate\<close> starts a thread;
  no call ends a thread.
\<close>

lemma open_keeps_monitor:
  "g_monitoringActive (fst (snd (open_alsaClient name sq g))) = g_monitoringActive g"
  "monitor_threads (fst (snd (open_alsaClient name sq g))) = monitor_threads g"
  by (simp_all add: open_alsaClient_def Let_def)

lemma onMonitorConnections_keeps_monitor:
  "g_monitoringActive (snd (onMonitorConnections handler g)) = g_monitoringActive g"
  "monitor_threads (snd (onMonitorConnections handler g)) = monitor_threads g"
  by (simp_all add: onMonitorConnections_def)

lemma newReceiverPort_keeps_monitor:
  "g_monitoringActive (fst (snd (newReceiverPort name connectTo sq g))) = g_monitoringActive g"
  "monitor_threads (fst (snd (newReceiverPort name connectTo sq g))) = monitor_threads g"
  by (simp_all add: newReceiverPort_def onMonitorConnections_def Let_def)

lemma stop_keeps_monitor:
  "\<not> g_monitoringActive g \<Longrightarrow> \<not> g_monitoringActive (stop g)"
  "monitor_threads (stop g) = monitor_threads g"
  by (simp_all add: stop_def stopInternal_def stopConnectionMonitoring_def
      receiverQueue_stop_def)

lemma close_keeps_monitor:
  "\<not> g_monitoringActive g \<Longrightarrow> \<not> g_monitoringActive (fst (close_alsaClient g))"
  "monitor_threads (fst (close_alsaClient g)) = monitor_threads g"
  by (simp_all add: close_alsaClient_def stopInternal_def stopConnectionMonitoring_def
      receiverQueue_stop_def)

text \<open>One step of a thread while the flag is false.\<close>

lemma monitorLoop_step_pending:
  assumes "\<not> g_monitoringActive g" and "monitorLoop_step user sq g th = (thrown, th1)"
  shows "length (ticks th1) + pending_tick th1 \<le> length (ticks th) + pending_tick th"
proof (cases "pc th")
  case at_while_test
  with assms show ?thesis by (auto simp: monitorLoop_step_def pending_tick_def)
next
  case at_handler_call
  with assms show ?thesis
    by (auto simp: monitorLoop_step_def pending_tick_def Let_def split: option.splits if_splits)
next
  case at_sleep
  with assms show ?thesis by (auto simp: monitorLoop_step_def pending_tick_def)
next
  case returned
  with assms show ?thesis by (auto simp: monitorLoop_step_def pending_tick_def)
next
  case left_by_exception
  with assms show ?thesis by (auto simp: monitorLoop_step_def pending_tick_def)
qed

lemma monitorLoop_step_remaining:
  assumes "\<not> g_monitoringActive g" and "monitorLoop_step user sq g th = (None, th1)"
  shows "remaining_steps th1 = remaining_steps th - 1"
proof (cases "pc th")
  case at_while_test
  with assms show ?thesis by (auto simp: monitorLoop_step_def remaining_steps_def)
next
  case at_handler_call
  with assms show ?thesis
    by (auto simp: monitorLoop_step_def remaining_steps_def Let_def
        split: option.splits if_splits)
next
  case at_sleep
  with assms show ?thesis by (auto simp: monitorLoop_step_def remaining_steps_def)
next
  case returned
  with assms show ?thesis by (auto simp: monitorLoop_step_def remaining_steps_def)
next
  case left_by_exception
  with assms show ?thesis by (auto simp: monitorLoop_step_def remaining_steps_def)
qed

text \<open>One event other than \<open>activate\<close> while the flag is false.\<close>

lemma process_step_flag:
  assumes "\<not> g_monitoringActive (glob p)" and "e \<noteq> Activate"
  shows "\<not> g_monitoringActive (glob (process_step user e p))"
proof (cases "terminated p = None")
  case False
  with assms show ?thesis by (simp add: process_step_def)
next
  case True
  with assms show ?thesis
    by (cases e)
      (simp_all add: process_step_def open_keeps_monitor newReceiverPort_keeps_monitor
        onMonitorConnections_keeps_monitor stop_keeps_monitor close_keeps_monitor
        split: prod.splits)
qed

lemma process_step_threads:
  assumes "e \<noteq> Activate"
  shows "length (monitor_threads (glob (process_step user e p)))
           = length (monitor_threads (glob p))"
proof (cases "terminated p = None")
  case False
  then show ?thesis by (simp add: process_step_def)
next
  case True
  with assms show ?thesis
    by (cases e)
      (simp_all add: process_step_def open_keeps_monitor newReceiverPort_keeps_monitor
        onMonitorConnections_keeps_monitor stop_keeps_monitor close_keeps_monitor
        split: prod.splits)
qed

lemma process_step_pending:
  assumes "\<not> g_monitoringActive (glob p)" and "e \<noteq> Activate"
    and "i < length (monitor_threads (glob p))"
  shows "length (ticks (monitor_threads (glob (process_step user e p)) ! i))
           + pending_tick (monitor_threads (glob (process_step user e p)) ! i)
         \<le> length (ticks (monitor_threads (glob p) ! i))
           + pending_tick (monitor_threads (glob p) ! i)"
proof (cases "terminated p = None")
  case False
  then show ?thesis by (simp add: process_step_def)
next
  case True
  show ?thesis
  proof (cases e)
    case (Monitor j sq)
    show ?thesis
    proof (cases "j < length (monitor_threads (glob p))")
      case False
      with True Monitor show ?thesis by (simp add: process_step_def)
    next
      case j: True
      obtain thrown th1 where
        st: "monitorLoop_step user sq (glob p) (monitor_threads (glob p) ! j) = (thrown, th1)"
        by (cases "monitorLoop_step user sq (glob p) (monitor_threads (glob p) ! j)")
      have th: "monitor_threads (glob (process_step user e p))
                  = (monitor_threads (glob p))[j := th1]"
        using True Monitor j st by (simp add: process_step_def)
      show ?thesis
      proof (cases "i = j")
        case True
        then show ?thesis
          using monitorLoop_step_pending [OF assms(1) st] assms(3) by (simp add: th)
      next
        case False
        then show ?thesis by (simp add: th)
      qed
    qed
  qed (use True assms in \<open>simp_all add: process_step_def open_keeps_monitor
        newReceiverPort_keeps_monitor onMonitorConnections_keeps_monitor stop_keeps_monitor
        close_keeps_monitor\<close>)
qed

lemma process_step_terminated: "terminated p \<noteq> None \<Longrightarrow> process_step user e p = p"
  by (simp add: process_step_def)

lemma run_terminated: "terminated p \<noteq> None \<Longrightarrow> run user evs p = p"
  by (induction evs) (simp_all add: process_step_terminated)

lemma process_step_remaining:
  assumes "\<not> g_monitoringActive (glob p)" and "e \<noteq> Activate"
    and "i < length (monitor_threads (glob p))"
  shows "terminated (process_step user e p) \<noteq> None
         \<or> remaining_steps (monitor_threads (glob (process_step user e p)) ! i)
             = remaining_steps (monitor_threads (glob p) ! i) - steps_of i [e]"
proof (cases "terminated p = None")
  case False
  then show ?thesis by (simp add: process_step_def)
next
  case True
  show ?thesis
  proof (cases e)
    case (Monitor j sq)
    show ?thesis
    proof (cases "j < length (monitor_threads (glob p))")
      case False
      with True Monitor assms(3) show ?thesis by (auto simp: process_step_def steps_of_def)
    next
      case j: True
      obtain thrown th1 where
        st: "monitorLoop_step user sq (glob p) (monitor_threads (glob p) ! j) = (thrown, th1)"
        by (cases "monitorLoop_step user sq (glob p) (monitor_threads (glob p) ! j)")
      have th: "monitor_threads (glob (process_step user e p))
                  = (monitor_threads (glob p))[j := th1]"
        and tm: "terminated (process_step user e p) = thrown"
        using True Monitor j st by (simp_all add: process_step_def)
      show ?thesis
      proof (cases "thrown = None")
        case False
        then show ?thesis by (simp add: tm [unfolded Monitor] Monitor)
      next
        case none: True
        show ?thesis
        proof (cases "i = j")
          case True
          then show ?thesis
            using monitorLoop_step_remaining [OF assms(1) st [unfolded none]] assms(3)
            by (simp add: th [unfolded Monitor] Monitor steps_of_def)
        next
          case False
          then show ?thesis by (simp add: th [unfolded Monitor] Monitor steps_of_def)
        qed
      qed
    qed
  qed (use True assms in \<open>simp_all add: process_step_def steps_of_def open_keeps_monitor
        newReceiverPort_keeps_monitor onMonitorConnections_keeps_monitor stop_keeps_monitor
        close_keeps_monitor\<close>)
qed

text \<open>A run without \<open>activate\<close> while the flag is false.\<close>

lemma run_flag:
  assumes "\<not> g_monitoringActive (glob p)" and "Activate \<notin> set evs"
  shows "\<not> g_monitoringActive (glob (run user evs p))
         \<and> length (monitor_threads (glob (run user evs p))) = length (monitor_threads (glob p))"
  using assms
proof (induction evs arbitrary: p)
  case Nil
  then show ?case by simp
next
  case (Cons e evs)
  then have e: "e \<noteq> Activate" and evs: "Activate \<notin> set evs" by auto
  have "\<not> g_monitoringActive (glob (process_step user e p))"
    using Cons.prems(1) e by (rule process_step_flag)
  from Cons.IH [OF this evs] show ?case
    by (simp add: process_step_threads [OF e])
qed

lemma run_pending:
  assumes "\<not> g_monitoringActive (glob p)" and "Activate \<notin> set evs"
    and "i < length (monitor_threads (glob p))"
  shows "length (ticks (monitor_threads (glob (run user evs p)) ! i))
           + pending_tick (monitor_threads (glob (run user evs p)) ! i)
         \<le> length (ticks (monitor_threads (glob p) ! i))
           + pending_tick (monitor_threads (glob p) ! i)"
  using assms
proof (induction evs arbitrary: p)
  case Nil
  then show ?case by simp
next
  case (Cons e evs)
  then have e: "e \<noteq> Activate" and evs: "Activate \<notin> set evs" by auto
  have f: "\<not> g_monitoringActive (glob (process_step user e p))"
    using Cons.prems(1) e by (rule process_step_flag)
  have i: "i < length (monitor_threads (glob (process_step user e p)))"
    using Cons.prems(3) by (simp add: process_step_threads [OF e])
  have "length (ticks (monitor_threads (glob (run user (e # evs) p)) ! i))
           + pending_tick (monitor_threads (glob (run user (e # evs) p)) ! i)
        \<le> length (ticks (monitor_threads (glob (process_step user e p)) ! i))
           + pending_tick (monitor_threads (glob (process_step user e p)) ! i)"
    using Cons.IH [OF f evs i] by simp
  also have "\<dots> \<le> length (ticks (monitor_threads (glob p) ! i))
           + pending_tick (monitor_threads (glob p) ! i)"
    using Cons.prems(1) e Cons.prems(3) by (rule process_step_pending)
  finally show ?case .
qed

lemma steps_of_Cons: "steps_of i (e # evs) = steps_of i [e] + steps_of i evs"
  by (simp add: steps_of_def)

lemma run_remaining:
  assumes "\<not> g_monitoringActive (glob p)" and "Activate \<notin> set evs"
    and "i < length (monitor_threads (glob p))"
  shows "terminated (run user evs p) \<noteq> None
         \<or> remaining_steps (monitor_threads (glob (run user evs p)) ! i)
             \<le> remaining_steps (monitor_threads (glob p) ! i) - steps_of i evs"
  using assms
proof (induction evs arbitrary: p)
  case Nil
  then show ?case by (simp add: steps_of_def)
next
  case (Cons e evs)
  then have e: "e \<noteq> Activate" and evs: "Activate \<notin> set evs" by auto
  have f: "\<not> g_monitoringActive (glob (process_step user e p))"
    using Cons.prems(1) e by (rule process_step_flag)
  have i: "i < length (monitor_threads (glob (process_step user e p)))"
    using Cons.prems(3) by (simp add: process_step_threads [OF e])
  show ?case
  proof (cases "terminated (process_step user e p) = None")
    case False
    then show ?thesis by (simp add: run_terminated)
  next
    case True
    then have r: "remaining_steps (monitor_threads (glob (process_step user e p)) ! i)
             = remaining_steps (monitor_threads (glob p) ! i) - steps_of i [e]"
      using process_step_remaining [OF Cons.prems(1) e Cons.prems(3), of user] by simp
    from Cons.IH [OF f evs i] show ?thesis
      by (auto simp: r steps_of_Cons [of i e evs])
  qed
qed

lemma remaining_steps_bound: "remaining_steps th \<le> 3"
  by (cases "pc th") (simp_all add: remaining_steps_def)

lemma remaining_steps_zero:
  "remaining_steps th = 0 \<Longrightarrow> pc th = returned \<or> pc th = left_by_exception"
  by (cases "pc th") (simp_all add: remaining_steps_def)

lemma run_leaves_loop:
  assumes "\<not> g_monitoringActive (glob p)" and "Activate \<notin> set evs"
    and "i < length (monitor_threads (glob p))" and "3 \<le> steps_of i evs"
  shows "terminated (run user evs p) \<noteq> None
         \<or> pc (monitor_threads (glob (run user evs p)) ! i) = returned
         \<or> pc (monitor_threads (glob (run user evs p)) ! i) = left_by_exception"
proof (cases "terminated (run user evs p) = None")
  case False
  then show ?thesis by simp
next
  case True
  then have "remaining_steps (monitor_threads (glob (run user evs p)) ! i)
             \<le> remaining_steps (monitor_threads (glob p) ! i) - steps_of i evs"
    using run_remaining [OF assms(1-3), of user] by simp
  moreover have "remaining_steps (monitor_threads (glob p) ! i) \<le> 3"
    by (rule remaining_steps_bound)
  ultimately have "remaining_steps (monitor_threads (glob (run user evs p)) ! i) = 0"
    using assms(4) by linarith
  then show ?thesis using remaining_steps_zero by blast
qed

lemma Stop_Close_clear_flag:
  assumes "terminated p = None"
    and "g_monitoringActive (glob p) \<longrightarrow> g_stateFlag (glob p) = running"
    and "e = Stop \<or> e = Close"
  shows "\<not> g_monitoringActive (glob (process_step user e p))"
    and "monitor_threads (glob (process_step user e p)) = monitor_threads (glob p)"
  using assms stop_clears_flag [OF assms(2)] close_clears_flag [OF assms(2)]
  by (auto simp: process_step_def stop_keeps_monitor close_keeps_monitor)

text \<open>
  C9, as the claim states it, does not hold: the session is running, its monitor
  thread has passed the test of the loop condition and is about to call the handler;
  now \<open>stop\<close> (or \<open>close\<close>) is called and returns, the state being \<open>idle\<close> (or
  \<open>closed\<close>); the next step of the monitor thread executes a tick all the same.
\<close>

theorem tick_after_stop_counterexample:
  "ticks (monitor_threads (glob (run no_user_handlers [Monitor 0 example_sequencer]
            (example_process ''14:0''))) ! 0) = []
   \<and> state (glob (run no_user_handlers [Monitor 0 example_sequencer, Stop]
            (example_process ''14:0''))) = idle
   \<and> ticks (monitor_threads (glob (run no_user_handlers
            [Monitor 0 example_sequencer, Stop, Monitor 0 example_sequencer]
            (example_process ''14:0''))) ! 0) = [(DefaultConnectionsHandler, ''14:0'')]
   \<and> state (glob (run no_user_handlers [Monitor 0 example_sequencer, Close]
            (example_process ''14:0''))) = closed
   \<and> ticks (monitor_threads (glob (run no_user_handlers
            [Monitor 0 example_sequencer, Close, Monitor 0 example_sequencer]
            (example_process ''14:0''))) ! 0) = [(DefaultConnectionsHandler, ''14:0'')]"
  by code_simp

lemma example_two_threads_value:
  "example_two_threads
     = \<lparr>glob = \<lparr>g_portId = 0, g_sequencerHandle = True, g_midiEventParserHandle = True,
                g_clientId = 128, g_stateFlag = running, g_connectTo = ''14:0'',
                g_onMonitorConnectionsHandler = Some DefaultConnectionsHandler,
                g_monitoringActive = True, receiverQueue_started = True,
                monitor_threads =
                  [\<lparr>pc = at_handler_call, ticks = [(DefaultConnectionsHandler, ''14:0'')]\<rparr>,
                   \<lparr>pc = at_handler_call, ticks = []\<rparr>]\<rparr>,
        terminated = None\<rparr>"
  by code_simp

lemma example_handler_throws:
  "terminated (run no_user_handlers
       [Monitor 0 example_sequencer, Stop, Monitor 0 example_sequencer,
        Monitor 0 example_sequencer, Monitor 0 example_sequencer]
       (example_process ''nosuchport''))
     = Some (runtime_error ''ALSA cannot connect to port [nosuchport]'')"
  "pc (monitor_threads (glob (run no_user_handlers
       [Monitor 0 example_sequencer, Stop, Monitor 0 example_sequencer,
        Monitor 0 example_sequencer, Monitor 0 example_sequencer]
       (example_process ''nosuchport''))) ! 0) = left_by_exception"
  by code_simp+

lemma example_after_second_stop:
  "map (\<lambda>th. (pc th, length (ticks th)))
     (monitor_threads (glob (run no_user_handlers
        [Monitor 0 example_sequencer, Monitor 1 example_sequencer,
         Monitor 0 example_sequencer, Monitor 1 example_sequencer,
         Monitor 0 example_sequencer, Monitor 1 example_sequencer]
        (process_step no_user_handlers Stop example_two_threads))))
   = [(returned, 2), (returned, 1)]"
  "terminated (run no_user_handlers
        [Monitor 0 example_sequencer, Monitor 1 example_sequencer,
         Monitor 0 example_sequencer, Monitor 1 example_sequencer,
         Monitor 0 example_sequencer, Monitor 1 example_sequencer]
        (process_step no_user_handlers Stop example_two_threads)) = None"
  unfolding example_two_threads_value by code_simp+

text \<open>
  C9, amended: \<open>stop\<close> and \<open>close\<close> set the shared flag to false and return without
  waiting for the monitor threads, of which every \<open>activate\<close> has started one. As long
  as \<open>activate\<close> is not called again, no thread is started and the flag stays false;
  each thread executes at most one further tick, and only if it had passed the test
  of the loop condition before; after three of its steps it has left the loop,
  unless an exception of a handler has terminated the process.
\<close>

theorem monitor_ends_after_stop:
  assumes "terminated p = None"
    and "g_monitoringActive (glob p) \<longrightarrow> g_stateFlag (glob p) = running"
    and "e = Stop \<or> e = Close"
    and "Activate \<notin> set evs"
    and "i < length (monitor_threads (glob p))"
  shows "\<not> g_monitoringActive (glob (process_step user e p))
     \<and> \<not> g_monitoringActive (glob (run user evs (process_step user e p)))
     \<and> length (monitor_threads (glob (run user evs (process_step user e p))))
         = length (monitor_threads (glob p))
     \<and> length (ticks (monitor_threads (glob (run user evs (process_step user e p))) ! i))
         \<le> length (ticks (monitor_threads (glob p) ! i))
             + pending_tick (monitor_threads (glob p) ! i)
     \<and> (3 \<le> steps_of i evs \<longrightarrow>
           terminated (run user evs (process_step user e p)) \<noteq> None
           \<or> pc (monitor_threads (glob (run user evs (process_step user e p))) ! i) = returned
           \<or> pc (monitor_threads (glob (run user evs (process_step user e p))) ! i)
               = left_by_exception)"
proof -
  let ?q = "process_step user e p"
  have f: "\<not> g_monitoringActive (glob ?q)"
    and t: "monitor_threads (glob ?q) = monitor_threads (glob p)"
    using assms(1-3) by (rule Stop_Close_clear_flag)+
  have i: "i < length (monitor_threads (glob ?q))"
    using assms(5) by (simp add: t)
  have "length (ticks (monitor_threads (glob (run user evs ?q)) ! i))
          \<le> length (ticks (monitor_threads (glob (run user evs ?q)) ! i))
              + pending_tick (monitor_threads (glob (run user evs ?q)) ! i)"
    by simp
  also have "\<dots> \<le> length (ticks (monitor_threads (glob ?q) ! i))
              + pending_tick (monitor_threads (glob ?q) ! i)"
    using f assms(4) i by (rule run_pending)
  finally have b: "length (ticks (monitor_threads (glob (run user evs ?q)) ! i))
          \<le> length (ticks (monitor_threads (glob p) ! i))
              + pending_tick (monitor_threads (glob p) ! i)"
    by (simp add: t)
  show ?thesis
    using f b run_flag [OF f assms(4), of user] run_leaves_loop [OF f assms(4) i, of user]
    by (simp add: t)
qed

theorem monitor_ends_after_stop_witness:
  "terminated example_two_threads = None
   \<and> g_monitoringActive (glob example_two_threads)
   \<and> g_stateFlag (glob example_two_threads) = running
   \<and> length (monitor_threads (glob example_two_threads)) = 2
   \<and> map (\<lambda>th. (pc th, length (ticks th))) (monitor_threads (glob example_two_threads))
       = [(at_handler_call, 1), (at_handler_call, 0)]
   \<and> \<not> g_monitoringActive (glob (process_step no_user_handlers Stop example_two_threads))
   \<and> steps_of 1
        [Monitor 0 example_sequencer, Monitor 1 example_sequencer,
         Monitor 0 example_sequencer, Monitor 1 example_sequencer,
         Monitor 0 example_sequencer, Monitor 1 example_sequencer] = 3
   \<and> length (ticks (monitor_threads (glob (run no_user_handlers
        [Monitor 0 example_sequencer, Monitor 1 example_sequencer,
         Monitor 0 example_sequencer, Monitor 1 example_sequencer,
         Monitor 0 example_sequencer, Monitor 1 example_sequencer]
        (process_step no_user_handlers Stop example_two_threads))) ! 1)) \<le> 0 + 1
   \<and> map (\<lambda>th. (pc th, length (ticks th)))
        (monitor_threads (glob (run no_user_handlers
          [Monitor 0 example_sequencer, Monitor 1 example_sequencer,
           Monitor 0 example_sequencer, Monitor 1 example_sequencer,
           Monitor 0 example_sequencer, Monitor 1 example_sequencer]
          (process_step no_user_handlers Stop example_two_threads))))
       = [(returned, 2), (returned, 1)]"
proof -
  let ?evs = "[Monitor 0 example_sequencer, Monitor 1 example_sequencer,
         Monitor 0 example_sequencer, Monitor 1 example_sequencer,
         Monitor 0 example_sequencer, Monitor 1 example_sequencer]"
  have c1: "terminated example_two_threads = None"
    by (simp add: example_two_threads_value)
  have c2: "g_monitoringActive (glob example_two_threads)"
    by (simp add: example_two_threads_value)
  have c3: "g_stateFlag (glob example_two_threads) = running"
    by (simp add: example_two_threads_value)
  have c4: "length (monitor_threads (glob example_two_threads)) = 2"
    by (simp add: example_two_threads_value)
  have c5: "map (\<lambda>th. (pc th, length (ticks th))) (monitor_threads (glob example_two_threads))
       = [(at_handler_call, 1), (at_handler_call, 0)]"
    by (simp add: example_two_threads_value)
  have before: "length (ticks (monitor_threads (glob example_two_threads) ! 1))
                  + pending_tick (monitor_threads (glob example_two_threads) ! 1) = 0 + 1"
    by (simp add: example_two_threads_value pending_tick_def)
  have h2: "g_monitoringActive (glob example_two_threads) \<longrightarrow>
       g_stateFlag (glob example_two_threads) = running"
    using c3 by simp
  have h3: "Stop = Stop \<or> Stop = Close" by simp
  have h4: "Activate \<notin> set ?evs" by simp
  have h5: "1 < length (monitor_threads (glob example_two_threads))"
    using c4 by simp
  note t = monitor_ends_after_stop [OF c1 h2 h3 h4 h5, of no_user_handlers]
  have c6: "\<not> g_monitoringActive (glob (process_step no_user_handlers Stop example_two_threads))"
    using t by (rule conjunct1)
  have c7: "steps_of 1 ?evs = 3"
    by (simp add: steps_of_def)
  have "length (ticks (monitor_threads (glob (run no_user_handlers ?evs
          (process_step no_user_handlers Stop example_two_threads))) ! 1))
        \<le> length (ticks (monitor_threads (glob example_two_threads) ! 1))
            + pending_tick (monitor_threads (glob example_two_threads) ! 1)"
    using t [THEN conjunct2, THEN conjunct2, THEN conjunct2] by (rule conjunct1)
  then have c8: "length (ticks (monitor_threads (glob (run no_user_handlers ?evs
          (process_step no_user_handlers Stop example_two_threads))) ! 1)) \<le> 0 + 1"
    by (simp only: before)
  have c9: "map (\<lambda>th. (pc th, length (ticks th)))
        (monitor_threads (glob (run no_user_handlers ?evs
          (process_step no_user_handlers Stop example_two_threads))))
       = [(returned, 2), (returned, 1)]"
    by (rule example_after_second_stop)
  show ?thesis
    by (intro conjI) (fact c1 c2 c3 c4 c5 c6 c7 c8 c9)+
qed

end
